theory Spec2Isabelle
  imports Complex_Main
begin

section \<open>Shared helpers of the two translation units\<close>

text \<open>
  Strings are byte strings (\<open>std::string\<close>, \<open>t_string\<close>).  Values of type \<open>int\<close> are
  mathematical integers; where the source converts a size or an iterator distance to
  \<open>int\<close> the conversion is written out, and the places where signed arithmetic could
  leave the range of \<open>int\<close> are named where they occur.
\<close>

text \<open>The conversion of a size or of an iterator distance to \<open>int\<close>: the value modulo
  \<open>2^32\<close>, read as a signed number of 32 bits.\<close>

definition to_int :: "nat \<Rightarrow> int" where
  "to_int n = (int n + 2 ^ 31) mod 2 ^ 32 - 2 ^ 31"

text \<open>The values that an \<open>int\<close> of the program holds, and the result of an addition, a
  subtraction or a division of two of them as the compiled program computes it: the
  mathematical result modulo \<open>2^32\<close>, read as a signed number of 32 bits.  A result that
  \<open>wrap_int\<close> changes is one that the source leaves undefined.\<close>

definition is_int :: "int \<Rightarrow> bool" where
  "is_int x = (- (2 ^ 31) \<le> x \<and> x < 2 ^ 31)"

definition wrap_int :: "int \<Rightarrow> int" where
  "wrap_int x = (x + 2 ^ 31) mod 2 ^ 32 - 2 ^ 31"

datatype error = OutOfRange

text \<open>\<open>std::distance(v.begin(), std::find(v.begin(), v.end(), x))\<close>: the index of the
  first element equal to \<open>x\<close>, or the size of the container when there is none.\<close>

fun find_distance :: "'a \<Rightarrow> 'a list \<Rightarrow> nat" where
  "find_distance x [] = 0"
| "find_distance x (y # ys) = (if y = x then 0 else Suc (find_distance x ys))"

text \<open>Dereferencing \<open>begin()\<close> advanced by \<open>n\<close>, and \<open>v[n]\<close>: defined only below the size.\<close>

definition element_at :: "'a list \<Rightarrow> nat \<Rightarrow> error + 'a" where
  "element_at xs n = (if n < length xs then Inr (xs ! n) else Inl OutOfRange)"

text \<open>The character \<open>'\<close> of the markup literals.\<close>

definition apostrophe :: string where
  "apostrophe = [CHR 0x27]"

section \<open>preferences\_dialog.cpp: accelerated speed slider\<close>

text \<open>The member \<open>accl_speeds_\<close> as the constructor initialises it.  Every entry is a
  dyadic rational that a \<open>double\<close> holds exactly, and the only operation the dialog
  applies to the entries is \<open>==\<close>, so the entries are modelled as rationals.\<close>

definition accl_speeds :: "rat list" where
  "accl_speeds = [1/4, 1/2, 3/4, 1, 5/4, 3/2, 7/4, 2, 3, 4, 8, 16]"

text \<open>The two lambdas of \<open>initialize_callbacks\<close>.  The preference store behind
  \<open>turbo_speed()\<close> and \<open>set_turbo_speed()\<close> is outside the excerpt: both are parameters
  over a store of any type.\<close>

definition accl_load :: "('s \<Rightarrow> rat) \<Rightarrow> 's \<Rightarrow> int" where
  "accl_load turbo_speed s = to_int (find_distance (turbo_speed s) accl_speeds)"

definition accl_save :: "(rat \<Rightarrow> 's \<Rightarrow> 's) \<Rightarrow> int \<Rightarrow> 's \<Rightarrow> error + 's" where
  "accl_save set_turbo_speed i s =
     (if 0 \<le> i then
        (case element_at accl_speeds (nat i) of
           Inl e \<Rightarrow> Inl e
         | Inr v \<Rightarrow> Inr (set_turbo_speed v s))
      else Inl OutOfRange)"

section \<open>preferences\_dialog.cpp: friends list\<close>

record acquaintance =
  get_nick :: string
  get_status :: string
  get_notes :: string

text \<open>\<open>std::map<std::string, acquaintance>\<close> in iteration (key) order.\<close>

type_synonym acquaintances = "(string \<times> acquaintance) list"

text \<open>A row of the friends listbox: the labels of its three widgets.\<close>

record friend_row =
  friend_icon :: string
  friend_name :: string
  friend_status :: string

record listbox =
  rows :: "friend_row list"
  selected_row :: int

text \<open>\<open>on_friends_list_select\<close>: the result is the value of the textbox afterwards, or
  the error of reading the map past its end.\<close>

definition on_friends_list_select :: "acquaintances \<Rightarrow> listbox \<Rightarrow> string \<Rightarrow> error + string" where
  "on_friends_list_select acqs list textbox =
     (let num_friends = to_int (length acqs);
          sel = selected_row list
      in if sel < 0 \<or> sel \<ge> num_friends then Inr textbox
         else (case element_at acqs (nat sel) of
                 Inl e \<Rightarrow> Inl e
               | Inr who \<Rightarrow> Inr (get_nick (snd who) @ '' '' @ get_notes (snd who))))"

text \<open>\<open>get_friends_list_row_data\<close>; \<open>tr\<close> is the gettext lookup \<open>_()\<close>.\<close>

definition get_friends_list_row_data :: "(string \<Rightarrow> string) \<Rightarrow> acquaintance \<Rightarrow> friend_row" where
  "get_friends_list_row_data tr entry =
     (let image = (if get_status entry = ''ignore'' then ''ignore.png'' else ''friend.png'');
          descriptor = (if get_status entry = ''ignore'' then tr ''ignored'' else tr ''friend'');
          notes_markup = (if get_notes entry \<noteq> [] then '' <small>('' @ get_notes entry @ '')</small>''
                          else [])
      in \<lparr>friend_icon = ''misc/status-'' @ image,
          friend_name = get_nick entry @ notes_markup,
          friend_status = ''<small>'' @ descriptor @ ''</small>''\<rparr>)"

text \<open>The listbox belongs to the toolkit, outside the excerpt.  Its operations are taken
  by their effect on the rows and on the selection: \<open>add_row\<close> at the end or at an index,
  \<open>remove_row\<close>, and \<open>select_row\<close>, which selects a row that exists and otherwise leaves
  the selection as it is.\<close>

definition add_row :: "friend_row \<Rightarrow> friend_row list \<Rightarrow> friend_row list" where
  "add_row data rs = rs @ [data]"

definition add_row_at :: "friend_row \<Rightarrow> nat \<Rightarrow> friend_row list \<Rightarrow> friend_row list" where
  "add_row_at data i rs = take i rs @ [data] @ drop i rs"

definition remove_row :: "nat \<Rightarrow> friend_row list \<Rightarrow> friend_row list" where
  "remove_row i rs = take i rs @ drop (Suc i) rs"

definition select_row :: "int \<Rightarrow> listbox \<Rightarrow> listbox" where
  "select_row n list =
     (if 0 \<le> n \<and> n < int (length (rows list)) then list\<lparr>selected_row := n\<rparr> else list)"

text \<open>The part of the dialog that the friends list callbacks read and write: the
  acquaintances of the preferences, the listbox, the text of the textbox, the state of
  the remove button and of the notice label, and the transient messages shown so far
  (title and text).\<close>

record friends_panel =
  acquaintances :: acquaintances
  friends_list :: listbox
  friend_name_box :: string
  remove_active :: bool
  no_friends_notice_visible :: bool
  messages :: "(string \<times> string) list"

definition update_friends_list_controls :: "friends_panel \<Rightarrow> friends_panel" where
  "update_friends_list_controls d =
     (let list = friends_list d;
          list_empty = (length (rows list) = 0);
          list' = (if \<not> list_empty
                   then select_row (min (to_int (length (rows list)) - 1) (selected_row list)) list
                   else list)
      in d\<lparr>friends_list := list', remove_active := \<not> list_empty,
           no_friends_notice_visible := list_empty\<rparr>)"

text \<open>\<open>std::string::find_first_of(c)\<close>; \<open>npos\<close> is \<open>None\<close>.\<close>

fun find_first_of :: "char \<Rightarrow> string \<Rightarrow> nat option" where
  "find_first_of c [] = None"
| "find_first_of c (x # xs) =
     (if x = c then Some 0 else map_option Suc (find_first_of c xs))"

text \<open>The loop of \<open>add_friend_list_entry\<close> over the rows of the listbox: the first row
  whose name label equals the nick is removed and the new row is added in its place.\<close>

function replace_row_loop :: "friend_row \<Rightarrow> string \<Rightarrow> nat \<Rightarrow> friend_row list \<Rightarrow> friend_row list" where
  "replace_row_loop data nick_name i rs =
     (if i < length rs
      then (if friend_name (rs ! i) = nick_name
            then add_row_at data i (remove_row i rs)
            else replace_row_loop data nick_name (Suc i) rs)
      else rs)"
  by pat_completeness auto
termination
  by (relation "measure (\<lambda>(data, nick_name, i, rs). length rs - i)") auto

declare replace_row_loop.simps [simp del]

text \<open>\<open>add_friend_list_entry\<close>.  \<open>add_acquaintance\<close> belongs to the preferences and is
  outside the excerpt: it is a parameter that takes the nick, the status, the notes and
  the acquaintances, and returns the entry (null is \<open>None\<close>), whether the entry is new,
  and the acquaintances afterwards.\<close>

definition add_friend_list_entry ::
  "(string \<Rightarrow> string) \<Rightarrow>
   (string \<Rightarrow> string \<Rightarrow> string \<Rightarrow> acquaintances \<Rightarrow> (acquaintance option \<times> bool) \<times> acquaintances) \<Rightarrow>
   bool \<Rightarrow> friends_panel \<Rightarrow> friends_panel" where
  "add_friend_list_entry tr add_acquaintance is_friend d =
     (let username = friend_name_box d in
      if username = [] then d\<lparr>messages := messages d @ [([], tr ''No username specified'')]\<rparr>
      else
        let (reason, username) =
              (case find_first_of CHR '' '' username of
                 None \<Rightarrow> ([], username)
               | Some pos \<Rightarrow> (drop (pos + 1) username, take pos username));
            ((entry, added_new), acqs) =
              add_acquaintance username (if is_friend then ''friend'' else ''ignore'') reason
                (acquaintances d)
        in case entry of
             None \<Rightarrow>
               d\<lparr>acquaintances := acqs,
                 messages := messages d @ [(tr ''Error'', tr ''Invalid username'')]\<rparr>
           | Some e \<Rightarrow>
               let list = friends_list d;
                   data = get_friends_list_row_data tr e;
                   rs = (if added_new then add_row data (rows list)
                         else replace_row_loop data (get_nick e) 0 (rows list))
               in update_friends_list_controls
                    (d\<lparr>acquaintances := acqs, friend_name_box := [],
                       friends_list := list\<lparr>rows := rs\<rparr>\<rparr>))"

section \<open>preferences\_dialog.cpp: combo options of the advanced panel\<close>

text \<open>Modelled from the spec: the configuration record of an advanced preference
  (class \<open>config\<close>, outside the excerpt): attributes by key and child records by tag, in
  order.  Reading an attribute that is not there gives the empty string.\<close>

datatype config = Config (attributes: "(string \<times> string) list") (children: "(string \<times> config) list")

definition attribute :: "config \<Rightarrow> string \<Rightarrow> string" where
  "attribute c key = (case map_of (attributes c) key of None \<Rightarrow> [] | Some v \<Rightarrow> v)"

definition has_attribute :: "config \<Rightarrow> string \<Rightarrow> bool" where
  "has_attribute c key = (case map_of (attributes c) key of None \<Rightarrow> False | Some v \<Rightarrow> True)"

definition child_range :: "config \<Rightarrow> string \<Rightarrow> config list" where
  "child_range c tag = map snd (filter (\<lambda>entry. fst entry = tag) (children c))"

text \<open>Modelled from the spec: \<open>preferences::get(key, def)\<close>, outside the excerpt, gives
  the stored value of the preference or, when no value is stored, the default passed.\<close>

definition preferences_get :: "(string \<rightharpoonup> string) \<Rightarrow> string \<Rightarrow> string \<Rightarrow> string" where
  "preferences_get prefs key def = (case prefs key of None \<Rightarrow> def | Some v \<Rightarrow> v)"

datatype avd_type = TOGGLE | SLIDER | COMBO | SPECIAL

record advanced_option =
  opt_field :: string
  opt_name :: string
  opt_description :: string
  opt_type :: avd_type
  opt_cfg :: config

text \<open>The loop of the \<open>COMBO\<close> case over the \<open>option\<close> children, with its two vectors.\<close>

fun combo_choices :: "config list \<Rightarrow> config list \<Rightarrow> string list \<Rightarrow> config list \<times> string list" where
  "combo_choices [] menu_data option_ids = (menu_data, option_ids)"
| "combo_choices (choice # rest) menu_data option_ids =
     (let menu_item =
            Config ((''label'', attribute choice ''name'') #
                    (if has_attribute choice ''description''
                     then [(''details'',
                            ''<span color='' @ apostrophe @ ''#777'' @ apostrophe @ ''>'' @
                            attribute choice ''description'' @ ''</span>'')]
                     else [])) []
      in combo_choices rest (menu_data @ [menu_item]) (option_ids @ [attribute choice ''id'']))"

text \<open>The \<open>COMBO\<close> case up to \<open>menu.set_values(menu_data, selected)\<close>: the values of the
  menu and the selected index.\<close>

definition combo_menu :: "(string \<rightharpoonup> string) \<Rightarrow> advanced_option \<Rightarrow> config list \<times> int" where
  "combo_menu prefs opt =
     (let (menu_data, option_ids) = combo_choices (child_range (opt_cfg opt) ''option'') [] [];
          selected = to_int (find_distance
                               (preferences_get prefs (opt_field opt)
                                  (attribute (opt_cfg opt) ''default''))
                               option_ids);
          selected = (if selected < 0 \<or> selected \<ge> to_int (length option_ids) then 0
                      else selected)
      in (menu_data, selected))"

section \<open>preferences\_dialog.cpp: hotkeys panel\<close>

text \<open>A hotkey command of the registry, with the fields the dialog reads.  The three
  scope flags are the bits \<open>SCOPE_GAME\<close>, \<open>SCOPE_EDITOR\<close> and \<open>SCOPE_MAIN_MENU\<close> of
  \<open>scope\<close>; \<open>category\<close> is the value of the enumerator \<open>HOTKEY_CATEGORY\<close>.\<close>

record hotkey_command =
  command_id :: string
  description :: string
  hidden :: bool
  scope_game :: bool
  scope_editor :: bool
  scope_main_menu :: bool
  category :: nat

text \<open>The labels of a row of \<open>list_hotkeys\<close>, by widget id.\<close>

record hotkey_row =
  img_icon :: string
  lbl_desc :: string
  lbl_hotkey :: string
  lbl_is_game :: string
  lbl_is_editor :: string
  lbl_is_mainmenu :: string

text \<open>What the hotkeys panel calls outside the excerpt, as parameters: the gettext
  lookup \<open>_()\<close>, \<open>filesystem::file_exists\<close>, \<open>game_config::path\<close>, \<open>hotkey::get_names\<close>,
  \<open>hotkey::get_translatable_category_name\<close>, \<open>utils::split(text, ' ')\<close> and
  \<open>translation::ci_search\<close>.\<close>

record hotkey_env =
  gettext :: "string \<Rightarrow> string"
  file_exists :: "string \<Rightarrow> bool"
  game_config_path :: string
  get_names :: "string \<Rightarrow> string"
  get_translatable_category_name :: "nat \<Rightarrow> string"
  utils_split :: "string \<Rightarrow> string list"
  ci_search :: "string \<Rightarrow> string \<Rightarrow> bool"

text \<open>The members and widgets of the dialog that the hotkeys panel reads and writes:
  \<open>visible_hotkeys_\<close>, \<open>visible_categories_\<close> (a \<open>std::set\<close>, in iteration order), the rows
  of \<open>list_hotkeys\<close> and which of them are shown, the labels and the toggle states of
  \<open>hotkey_category_menu\<close>, and the text of the \<open>filter\<close> box.\<close>

record hotkeys_panel =
  visible_hotkeys :: "hotkey_command list"
  visible_categories :: "nat list"
  list_hotkeys :: "hotkey_row list"
  row_shown :: "bool list"
  category_menu_values :: "string list"
  toggle_states :: "bool list"
  filter_text :: string

text \<open>\<open>std::set::insert\<close> on the ordered sequence of the set's elements.\<close>

fun set_insert :: "nat \<Rightarrow> nat list \<Rightarrow> nat list" where
  "set_insert x [] = [x]"
| "set_insert x (y # ys) =
     (if x < y then x # y # ys else if x = y then y # ys else y # set_insert x ys)"

text \<open>The body of the loop of \<open>setup_hotkey_list\<close> for one command that is not hidden:
  the row that \<open>add_row\<close> receives.\<close>

definition hotkey_row_data :: "hotkey_env \<Rightarrow> hotkey_command \<Rightarrow> hotkey_row" where
  "hotkey_row_data env hotkey_item =
     (let gh = ''<span color='' @ apostrophe @ ''#0f0'' @ apostrophe @ ''>'' @
               gettext env ''game_hotkeys^G'' @ ''</span>'';
          eh = ''<span color='' @ apostrophe @ ''#0f0'' @ apostrophe @ ''>'' @
               gettext env ''editor_hotkeys^E'' @ ''</span>'';
          mh = ''<span color='' @ apostrophe @ ''#0f0'' @ apostrophe @ ''>'' @
               gettext env ''mainmenu_hotkeys^M'' @ ''</span>''
      in \<lparr>img_icon =
            (if file_exists env
                  (game_config_path env @ ''/images/icons/action/'' @ command_id hotkey_item @
                   ''_25.png'')
             then ''icons/action/'' @ command_id hotkey_item @ ''_25.png~CROP(3,3,18,18)''
             else []),
          lbl_desc = description hotkey_item,
          lbl_hotkey = get_names env (command_id hotkey_item),
          lbl_is_game = (if scope_game hotkey_item then gh else []),
          lbl_is_editor = (if scope_editor hotkey_item then eh else []),
          lbl_is_mainmenu = (if scope_main_menu hotkey_item then mh else [])\<rparr>)"

text \<open>The loop over \<open>hotkey::get_hotkey_commands()\<close>, a map from id to command in
  iteration order, with the three containers it fills.\<close>

fun hotkey_commands_loop ::
  "hotkey_env \<Rightarrow> (string \<times> hotkey_command) list \<Rightarrow>
   hotkey_command list \<times> nat list \<times> hotkey_row list \<Rightarrow>
   hotkey_command list \<times> nat list \<times> hotkey_row list" where
  "hotkey_commands_loop env [] acc = acc"
| "hotkey_commands_loop env ((cid, hotkey_item) # rest) (hotkeys, categories, rws) =
     (if hidden hotkey_item then hotkey_commands_loop env rest (hotkeys, categories, rws)
      else hotkey_commands_loop env rest
             (hotkeys @ [hotkey_item], set_insert (category hotkey_item) categories,
              rws @ [hotkey_row_data env hotkey_item]))"

text \<open>\<open>setup_hotkey_list\<close>.  The list and the two members are cleared before the loop.
  Rows that were just added are shown, and \<open>set_values\<close> of the category menu receives
  one entry per visible category with its checkbox off.\<close>

definition setup_hotkey_list ::
  "hotkey_env \<Rightarrow> (string \<times> hotkey_command) list \<Rightarrow> hotkeys_panel \<Rightarrow> hotkeys_panel" where
  "setup_hotkey_list env commands p =
     (let (hotkeys, categories, rws) = hotkey_commands_loop env commands ([], [], []);
          filter_ops = map (\<lambda>cat. (get_translatable_category_name env cat, False)) categories
      in p\<lparr>visible_hotkeys := hotkeys, visible_categories := categories,
           list_hotkeys := rws, row_shown := map (\<lambda>r. True) rws,
           category_menu_values := map fst filter_ops, toggle_states := map snd filter_ops\<rparr>)"

text \<open>The inner loop of \<open>hotkey_filter_callback\<close> over the words of the filter text,
  which stops at the first word that is not found.\<close>

fun search_words :: "hotkey_env \<Rightarrow> string \<Rightarrow> string list \<Rightarrow> bool \<Rightarrow> bool" where
  "search_words env descr [] found = found"
| "search_words env descr (word # rest) found =
     (let found = ci_search env descr word
      in if \<not> found then found else search_words env descr rest found)"

text \<open>The loop over \<open>visible_categories_\<close> that counts the categories before the one of
  the hotkey.\<close>

fun category_index :: "nat \<Rightarrow> nat list \<Rightarrow> nat \<Rightarrow> nat" where
  "category_index c [] cat_index = cat_index"
| "category_index c (cat # rest) cat_index =
     (if c = cat then cat_index else category_index c rest (cat_index + 1))"

text \<open>The body of the outer loop: the value stored in \<open>res[h]\<close> for the hotkey at \<open>h\<close>.\<close>

definition hotkey_row_result ::
  "hotkey_env \<Rightarrow> string \<Rightarrow> bool list \<Rightarrow> nat list \<Rightarrow> hotkey_command \<Rightarrow> bool" where
  "hotkey_row_result env entered states categories hotkey_item =
     (let found = (if entered \<noteq> []
                   then search_words env (description hotkey_item) (utils_split env entered) True
                   else True);
          cat_index = category_index (category hotkey_item) categories 0
      in if cat_index < length states \<and> found then states ! cat_index else False)"

definition hotkey_filter_callback :: "hotkey_env \<Rightarrow> hotkeys_panel \<Rightarrow> hotkeys_panel" where
  "hotkey_filter_callback env p =
     (let states = toggle_states p;
          entered = filter_text p;
          states = (if True \<notin> set states then map Not states else states);
          res = map (hotkey_row_result env entered states (visible_categories p))
                  (visible_hotkeys p)
      in p\<lparr>row_shown := res\<rparr>)"

section \<open>unit\_preview\_pane.cpp: the pane and its activation\<close>

datatype state_t = ENABLED

text \<open>The label, tooltip and markup flag of a widget, as the pane sets them.\<close>

record styled_widget =
  label :: string
  tooltip :: string
  use_markup :: bool

text \<open>A node of the details tree: its node type, the data of its widgets by id, and
  its children in the order they were added.\<close>

datatype tree_view_node = Tree_node string "(string \<times> styled_widget) list" "tree_view_node list"

text \<open>The members of \<open>unit_preview_pane\<close>.  A widget that \<open>finalize_setup\<close> did not find
  is a null pointer, \<open>None\<close> here; \<open>current_type\<close> holds the id of the unit type.\<close>

record unit_preview_pane =
  current_type :: "string option"
  icon_type :: "styled_widget option"
  icon_race :: "styled_widget option"
  icon_alignment :: "styled_widget option"
  label_name :: "styled_widget option"
  label_level :: "styled_widget option"
  label_race :: "styled_widget option"
  label_details :: "styled_widget option"
  tree_details :: "tree_view_node list option"
  button_profile :: bool
  image_mods :: string

definition set_active :: "bool \<Rightarrow> unit_preview_pane \<Rightarrow> unit_preview_pane" where
  "set_active active pane = pane"

definition get_active :: "unit_preview_pane \<Rightarrow> bool" where
  "get_active pane = True"

definition get_state :: "unit_preview_pane \<Rightarrow> state_t" where
  "get_state pane = ENABLED"

definition set_self_active :: "bool \<Rightarrow> unit_preview_pane \<Rightarrow> unit_preview_pane" where
  "set_self_active active pane = pane"

section \<open>unit\_preview\_pane.cpp: tooltips\<close>

text \<open>\<open>operator<<\<close> of a stream on an \<open>int\<close>: the decimal digits, after a minus sign for a
  negative number.\<close>

definition digit :: "nat \<Rightarrow> char" where
  "digit d = ''0123456789'' ! d"

fun ostream_nat :: "nat \<Rightarrow> string" where
  "ostream_nat n =
     (if n < 10 then [digit n]
      else ostream_nat (n div 10) @ [digit (n mod 10)])"

declare ostream_nat.simps [simp del]

definition ostream_int :: "int \<Rightarrow> string" where
  "ostream_int i = (if i < 0 then CHR ''-'' # ostream_nat (nat (- i)) else ostream_nat (nat i))"

text \<open>The quotient of two \<open>int\<close>s in C++, which truncates towards zero.\<close>

definition int_div :: "int \<Rightarrow> int \<Rightarrow> int" where
  "int_div a b = sgn a * sgn b * (\<bar>a\<bar> div \<bar>b\<bar>)"

definition newline :: string where
  "newline = [CHR 0x0A]"

definition tab :: string where
  "tab = [CHR 0x09]"

text \<open>Modelled from the spec: the constants \<open>font::unicode_bullet\<close>,
  \<open>font::unicode_figure_dash\<close> and \<open>font::unicode_en_dash\<close> are declared outside the
  excerpt; they are the bullet U+2022, the figure dash U+2012 and the en dash U+2013, in
  UTF-8.\<close>

definition unicode_bullet :: string where
  "unicode_bullet = [CHR 0xE2, CHR 0x80, CHR 0xA2]"

definition unicode_figure_dash :: string where
  "unicode_figure_dash = [CHR 0xE2, CHR 0x80, CHR 0x92]"

definition unicode_en_dash :: string where
  "unicode_en_dash = [CHR 0xE2, CHR 0x80, CHR 0x93]"

text \<open>The literal of \<open>get_mp_tooltip\<close>: the horizontal black hexagon U+2B23 and the zero
  width space U+200B, in UTF-8.\<close>

definition hexagon :: string where
  "hexagon = [CHR 0xE2, CHR 0xAC, CHR 0xA3, CHR 0xE2, CHR 0x80, CHR 0x8B]"

type_synonym color_t = "nat \<times> nat \<times> nat \<times> nat"

type_synonym terrain_code = "nat \<times> nat"

record terrain_type =
  is_indivisible :: bool
  is_nonnull :: bool
  terrain_name :: string

record terrain_movement =
  tm_name :: string
  moves :: int

text \<open>What the pane calls outside the excerpt, as parameters: the gettext lookups \<open>_()\<close>,
  \<open>translation::dgettext\<close> and \<open>VGETTEXT\<close>; \<open>unit_helper::resistance_color\<close> and
  \<open>utils::signed_percent\<close>; the hexadecimal colour that \<open>game_config::red_to_green\<close> gives
  for \<open>100.0 - 25.0 * moves\<close> on the less saturated scale, as a function of \<open>moves\<close>;
  \<open>help::load_terrain_types_data\<close> (null is \<open>None\<close>) with \<open>get_terrain_info\<close>;
  \<open>preferences::encountered_terrains\<close> in iteration order; the terrain codes \<open>FOGGED\<close> and
  \<open>VOID_TERRAIN\<close> and the match against \<open>ALL_OFF_MAP\<close>; \<open>emplace\<close> of the ordered set of
  \<open>terrain_movement\<close>, on the sequence of its elements; \<open>font::span_color\<close> and the colours
  and separators of \<open>font\<close>; \<open>unit::leader_crown\<close>; \<open>utils::join\<close>;
  \<open>unit_experience_accelerator::get_acceleration\<close>; the existence of the file of an image
  locator; and the \<open>string_table\<close> of the language.\<close>

record pane_env =
  translate :: "string \<Rightarrow> string"
  dgettext :: "string \<Rightarrow> string \<Rightarrow> string"
  vgettext :: "string \<Rightarrow> (string \<times> string) list \<Rightarrow> string"
  resistance_color :: "int \<Rightarrow> string"
  signed_percent :: "int \<Rightarrow> string"
  movement_color :: "int \<Rightarrow> string"
  load_terrain_types_data :: "(terrain_code \<Rightarrow> terrain_type) option"
  encountered_terrains :: "terrain_code list"
  FOGGED :: terrain_code
  VOID_TERRAIN :: terrain_code
  matches_all_off_map :: "terrain_code \<Rightarrow> bool"
  terrain_moves_emplace :: "terrain_movement \<Rightarrow> terrain_movement list \<Rightarrow> terrain_movement list"
  span_color :: "color_t \<Rightarrow> string"
  unit_type_color :: color_t
  weapon_details_color :: color_t
  weapon_numbers_sep :: string
  weapon_details_sep :: string
  leader_crown :: string
  utils_join :: "string list \<Rightarrow> string \<Rightarrow> string"
  get_acceleration :: int
  image_file_exists :: "string \<Rightarrow> bool"
  string_table :: "string \<Rightarrow> string"

text \<open>The loop of \<open>get_hp_tooltip\<close> over the resistance table, a map from damage type to
  value in iteration order, with the flag and the vector of lines it fills; \<open>get\<close> is the
  resistance query passed in.  The two subtractions from 100 are those of \<open>int\<close>.\<close>

fun resistances_loop ::
  "pane_env \<Rightarrow> (string \<Rightarrow> bool \<Rightarrow> int) \<Rightarrow> (string \<times> string) list \<Rightarrow>
   bool \<times> string list \<Rightarrow> bool \<times> string list" where
  "resistances_loop env get [] acc = acc"
| "resistances_loop env get (resist # rest) (att_def_diff, resistances_table) =
     (let line = dgettext env ''wesnoth'' (fst resist) @ '': '';
          res_att = wrap_int (100 - get (fst resist) True);
          res_def = wrap_int (100 - get (fst resist) False)
      in if res_att = res_def
         then resistances_loop env get rest
                (att_def_diff,
                 resistances_table @
                 [line @ ''<span color='' @ apostrophe @ resistance_color env res_def @ apostrophe @
                  ''>'' @ tab @ signed_percent env res_def @ ''</span>''])
         else resistances_loop env get rest
                (True,
                 resistances_table @
                 [line @ ''<span color='' @ apostrophe @ resistance_color env res_att @ apostrophe @
                  ''>'' @ tab @ signed_percent env res_att @ ''</span>'' @ ''/'' @
                  ''<span color='' @ apostrophe @ resistance_color env res_def @ apostrophe @
                  ''>'' @ signed_percent env res_def @ ''</span>'']))"

text \<open>The loop that writes the lines of the table to the tooltip.\<close>

fun bullet_lines :: "string list \<Rightarrow> string \<Rightarrow> string" where
  "bullet_lines [] out = out"
| "bullet_lines (line # rest) out =
     bullet_lines rest (out @ newline @ unicode_bullet @ '' '' @ line)"

definition get_hp_tooltip ::
  "pane_env \<Rightarrow> (string \<times> string) list \<Rightarrow> (string \<Rightarrow> bool \<Rightarrow> int) \<Rightarrow> string" where
  "get_hp_tooltip env res get =
     (let (att_def_diff, resistances_table) = resistances_loop env get res (False, []);
          out = ''<big>'' @ translate env ''Resistances: '' @ ''</big>'';
          out = (if att_def_diff then out @ translate env ''(Att / Def)'' else out)
      in bullet_lines resistances_table out)"

text \<open>The first loop of \<open>get_mp_tooltip\<close>, over the encountered terrains.\<close>

fun terrain_moves_loop ::
  "pane_env \<Rightarrow> (terrain_code \<Rightarrow> terrain_type) \<Rightarrow> (terrain_code \<Rightarrow> int) \<Rightarrow>
   terrain_code list \<Rightarrow> terrain_movement list \<Rightarrow> terrain_movement list" where
  "terrain_moves_loop env tdata get [] terrain_moves = terrain_moves"
| "terrain_moves_loop env tdata get (terrain # rest) terrain_moves =
     (if terrain = FOGGED env \<or> terrain = VOID_TERRAIN env \<or> matches_all_off_map env terrain
      then terrain_moves_loop env tdata get rest terrain_moves
      else
        let info = tdata terrain
        in if is_indivisible info \<and> is_nonnull info
           then terrain_moves_loop env tdata get rest
                  (terrain_moves_emplace env
                     \<lparr>tm_name = terrain_name info, moves = get terrain\<rparr> terrain_moves)
           else terrain_moves_loop env tdata get rest terrain_moves)"

text \<open>The loop that writes one hexagon for every \<open>i\<close> from 0 below
  \<open>movement_hexes_per_turn\<close>.\<close>

function hexagon_loop :: "int \<Rightarrow> int \<Rightarrow> string \<Rightarrow> string" where
  "hexagon_loop i movement_hexes_per_turn out =
     (if i < movement_hexes_per_turn
      then hexagon_loop (i + 1) movement_hexes_per_turn (out @ hexagon)
      else out)"
  by pat_completeness auto
termination
  by (relation "measure (\<lambda>(i, n, out). nat (n - i))") auto

declare hexagon_loop.simps [simp del]

text \<open>The body of the second loop of \<open>get_mp_tooltip\<close>: what one terrain adds to the
  tooltip.  The sum \<open>total_movement + 5\<close> and the quotient \<open>total_movement / tm.moves\<close> are
  those of \<open>int\<close>; the only quotient that leaves \<open>int\<close> is that of \<open>-2^31\<close> by \<open>-1\<close>.  The
  counter of the hexagon loop stays below the quotient and so inside \<open>int\<close>.\<close>

definition mp_tooltip_line :: "pane_env \<Rightarrow> int \<Rightarrow> terrain_movement \<Rightarrow> string \<Rightarrow> string" where
  "mp_tooltip_line env total_movement tm out =
     (let out = out @ newline @ unicode_bullet @ '' '' @ tm_name tm @ '': '';
          cannot_move = (moves tm > total_movement);
          color = movement_color env (moves tm);
          out = out @ ''<span color='' @ apostrophe @ color @ apostrophe @ ''>'';
          out = (if cannot_move \<and> moves tm > wrap_int (total_movement + 5)
                 then out @ unicode_figure_dash
                 else if cannot_move then out @ ''('' @ ostream_int (moves tm) @ '')''
                 else out @ ostream_int (moves tm));
          out = (if moves tm \<noteq> 0
                 then hexagon_loop 0 (wrap_int (int_div total_movement (moves tm))) (out @ '' '')
                 else out)
      in out @ ''</span>'')"

fun mp_tooltip_lines :: "pane_env \<Rightarrow> int \<Rightarrow> terrain_movement list \<Rightarrow> string \<Rightarrow> string" where
  "mp_tooltip_lines env total_movement [] out = out"
| "mp_tooltip_lines env total_movement (tm # rest) out =
     mp_tooltip_lines env total_movement rest (mp_tooltip_line env total_movement tm out)"

definition get_mp_tooltip :: "pane_env \<Rightarrow> int \<Rightarrow> (terrain_code \<Rightarrow> int) \<Rightarrow> string" where
  "get_mp_tooltip env total_movement get =
     (let out = ''<big>'' @ translate env ''Movement Costs:'' @ ''</big>''
      in case load_terrain_types_data env of
           None \<Rightarrow> []
         | Some tdata \<Rightarrow>
             mp_tooltip_lines env total_movement
               (terrain_moves_loop env tdata get (encountered_terrains env) []) out)"

section \<open>unit\_preview\_pane.cpp: displaying a unit\<close>

text \<open>An attack, by the accessors that \<open>print_attack_details\<close> calls.\<close>

record attack_type =
  attack_range :: string
  attack_type_id :: string
  damage :: int
  num_attacks :: int
  attack_name :: string
  special_tooltips :: "(string \<times> string) list"

text \<open>A unit, by the accessors that \<open>set_displayed_unit\<close> calls.  \<open>race_name\<close> is
  \<open>race()->name(gender())\<close>, \<open>alignment_string\<close> is \<open>unit_alignments::get_string\<close> of the
  alignment, \<open>alignment_description\<close> is \<open>unit_type::alignment_description\<close> of the alignment
  and the gender, \<open>level_tooltip\<close> is \<open>unit_helper::unit_level_tooltip\<close>, \<open>resistance_against\<close>
  is taken at the location of the unit, and an ability tooltip carries the third and the
  fourth component of the tuple.\<close>

record unit_data =
  unit_type_id :: string
  unit_image_mods :: string
  can_recruit :: bool
  overlays :: "string list"
  absolute_image :: string
  unit_name :: string
  type_name :: string
  level :: int
  level_tooltip :: string
  race_name :: string
  race_icon_path_stem :: string
  alignment_string :: string
  alignment_description :: string
  trait_names :: "string list"
  trait_descriptions :: "string list"
  hp_color :: color_t
  xp_color :: color_t
  hitpoints :: int
  max_hitpoints :: int
  experience :: int
  max_experience :: int
  can_advance :: bool
  movement_left :: int
  total_movement :: int
  base_resistances :: "(string \<times> string) list"
  resistance_against :: "string \<Rightarrow> bool \<Rightarrow> int"
  movement_cost :: "terrain_code \<Rightarrow> int"
  ability_list :: "string list"
  ability_tooltips :: "(string \<times> string) list"
  attacks :: "attack_type list"

text \<open>\<open>add_name_tree_node\<close>: the child it adds, with its label, markup flag and tooltip;
  the children of the new node are given with it.\<close>

definition add_name_tree_node :: "string \<Rightarrow> string \<Rightarrow> string \<Rightarrow> tree_view_node list \<Rightarrow> tree_view_node" where
  "add_name_tree_node node_type lbl tip nodes =
     Tree_node node_type [(''name'', \<lparr>label = lbl, tooltip = tip, use_markup = True\<rparr>)] nodes"

text \<open>The body of the loop of \<open>print_attack_details\<close>: the node of one attack.\<close>

definition attack_node :: "pane_env \<Rightarrow> attack_type \<Rightarrow> tree_view_node" where
  "attack_node env a =
     (let range_png = ''icons/profiles/'' @ attack_range a @ ''_attack.png~SCALE_INTO(16,16)'';
          type_png = ''icons/profiles/'' @ attack_type_id a @ ''.png~SCALE_INTO(16,16)'';
          range_png_exists = image_file_exists env range_png;
          type_png_exists = image_file_exists env type_png;
          range = string_table env (''range_'' @ attack_range a);
          type = string_table env (''type_'' @ attack_type_id a);
          lbl = span_color env (unit_type_color env) @ ostream_int (damage a) @
                weapon_numbers_sep env @ ostream_int (num_attacks a) @ '' '' @ attack_name a @
                ''</span>''
      in Tree_node ''item_image''
           [(''image_range'', \<lparr>label = range_png, tooltip = range, use_markup = False\<rparr>),
            (''image_type'', \<lparr>label = type_png, tooltip = type, use_markup = False\<rparr>),
            (''name'', \<lparr>label = lbl, tooltip = [], use_markup = True\<rparr>)]
           ((if \<not> range_png_exists \<or> \<not> type_png_exists
             then [add_name_tree_node ''item''
                     (span_color env (weapon_details_color env) @ range @
                      weapon_details_sep env @ type @ ''</span>'') [] []]
             else []) @
            map (\<lambda>pair. add_name_tree_node ''item''
                           (span_color env (weapon_details_color env) @ fst pair @ ''</span>'')
                           (''<span size='' @ apostrophe @ ''x-large'' @ apostrophe @ ''>'' @
                            fst pair @ ''</span>'' @ newline @ snd pair) [])
              (special_tooltips a)))"

text \<open>\<open>print_attack_details\<close>: the nodes it adds to the parent node.\<close>

definition print_attack_details :: "pane_env \<Rightarrow> attack_type list \<Rightarrow> tree_view_node list" where
  "print_attack_details env as =
     (if as = [] then []
      else [add_name_tree_node ''header'' (''<b>'' @ translate env ''Attacks'' @ ''</b>'') []
              (map (attack_node env) as)])"

text \<open>The loop of \<open>set_displayed_unit\<close> over the overlays of the unit.\<close>

fun overlay_mods :: "string list \<Rightarrow> string \<Rightarrow> string" where
  "overlay_mods [] mods = mods"
| "overlay_mods (overlay # rest) mods = overlay_mods rest (mods @ ''~BLIT('' @ overlay @ '')'')"

text \<open>The loop over the traits, which reads the name and the description at the same
  index; the assertion before the loop says that the two vectors have the same size.\<close>

definition trait_nodes :: "unit_data \<Rightarrow> tree_view_node list" where
  "trait_nodes u =
     map (\<lambda>i. add_name_tree_node ''item'' (trait_names u ! i) (trait_descriptions u ! i) [])
       [0 ..< length (trait_names u)]"

text \<open>The text that \<open>set_displayed_unit\<close> gives to the minimal details label.\<close>

definition details_text :: "pane_env \<Rightarrow> unit_data \<Rightarrow> string" where
  "details_text env u =
     (let str = ''<span size='' @ apostrophe @ ''large'' @ apostrophe @ ''>'' @
                (if unit_name u \<noteq> [] then unit_name u else '' '') @ ''</span>'' @ newline;
          str = str @ span_color env (unit_type_color env) @ type_name u @ ''</span>'' @ newline;
          l_str = vgettext env ''Lvl $lvl'' [(''lvl'', ostream_int (level u))];
          str = str @ l_str @ newline;
          str = str @ alignment_description u @ newline;
          str = str @ utils_join env (trait_names u) '', '' @ newline;
          str = str @ span_color env (hp_color u) @ translate env ''HP: '' @
                ostream_int (hitpoints u) @ ''/'' @ ostream_int (max_hitpoints u) @ ''</span>'' @
                newline;
          str = str @ span_color env (xp_color u) @ translate env ''XP: '';
          str = (if can_advance u
                 then str @ ostream_int (experience u) @ ''/'' @ ostream_int (max_experience u)
                 else str @ unicode_en_dash)
      in str @ ''</span>'')"

text \<open>The nodes that \<open>set_displayed_unit\<close> gives to the details tree after clearing it.\<close>

definition details_nodes :: "pane_env \<Rightarrow> unit_data \<Rightarrow> tree_view_node list" where
  "details_nodes env u =
     (let unit_xp = (if can_advance u
                     then ostream_int (experience u) @ ''/'' @ ostream_int (max_experience u)
                     else unicode_en_dash)
      in [Tree_node ''hp_xp_mp''
            [(''hp'',
              \<lparr>label = ''<small>'' @ span_color env (hp_color u) @ ''<b>'' @ translate env ''HP: '' @
                        ''</b>'' @ ostream_int (hitpoints u) @ ''/'' @
                        ostream_int (max_hitpoints u) @ ''</span>'' @ '' | </small>'',
               tooltip = get_hp_tooltip env (base_resistances u) (resistance_against u),
               use_markup = True\<rparr>),
             (''xp'',
              \<lparr>label = ''<small>'' @ span_color env (xp_color u) @ ''<b>'' @ translate env ''XP: '' @
                        ''</b>'' @ unit_xp @ ''</span>'' @ '' | </small>'',
               tooltip = translate env ''Experience Modifier: '' @
                         ostream_int (get_acceleration env) @ ''%'',
               use_markup = True\<rparr>),
             (''mp'',
              \<lparr>label = ''<small>'' @ ''<b>'' @ translate env ''MP: '' @ ''</b>'' @
                        ostream_int (movement_left u) @ ''/'' @ ostream_int (total_movement u) @
                        ''</small>'',
               tooltip = get_mp_tooltip env (total_movement u) (movement_cost u),
               use_markup = True\<rparr>)]
            []] @
         (if trait_names u \<noteq> []
          then [add_name_tree_node ''header'' (''<b>'' @ translate env ''Traits'' @ ''</b>'') []
                  (trait_nodes u)]
          else []) @
         (if ability_list u \<noteq> []
          then [add_name_tree_node ''header'' (''<b>'' @ translate env ''Abilities'' @ ''</b>'') []
                  (map (\<lambda>ab. add_name_tree_node ''item'' (fst ab) (snd ab) [])
                     (ability_tooltips u))]
          else []) @
         print_attack_details env (attacks u))"

text \<open>\<open>set_displayed_unit\<close>: every widget that the pane has receives its label, its
  tooltip and its markup flag; a widget that the pane does not have is skipped.\<close>

definition set_displayed_unit :: "pane_env \<Rightarrow> unit_data \<Rightarrow> unit_preview_pane \<Rightarrow> unit_preview_pane" where
  "set_displayed_unit env u pane =
     pane\<lparr>current_type := Some (unit_type_id u),
          icon_type :=
            map_option
              (\<lambda>w. let mods = unit_image_mods u;
                        mods = (if can_recruit u then mods @ ''~BLIT('' @ leader_crown env @ '')''
                                else mods);
                        mods = overlay_mods (overlays u) mods;
                        mods = mods @ image_mods pane
                    in w\<lparr>label := absolute_image u @ mods\<rparr>)
              (icon_type pane),
          label_name :=
            map_option
              (\<lambda>w. w\<lparr>label :=
                       (if unit_name u \<noteq> []
                        then ''<span size='' @ apostrophe @ ''large'' @ apostrophe @ ''>'' @
                             unit_name u @ ''</span>'' @ newline @ ''<small>'' @
                             span_color env (unit_type_color env) @ type_name u @
                             ''</span></small>''
                        else ''<span size='' @ apostrophe @ ''large'' @ apostrophe @ ''>'' @
                             type_name u @ ''</span>'' @ newline),
                      use_markup := True\<rparr>)
              (label_name pane),
          label_level :=
            map_option
              (\<lambda>w. w\<lparr>label := ''<b>'' @
                               vgettext env ''Lvl $lvl'' [(''lvl'', ostream_int (level u))] @
                               ''</b>'',
                      tooltip := level_tooltip u,
                      use_markup := True\<rparr>)
              (label_level pane),
          label_race := map_option (\<lambda>w. w\<lparr>label := race_name u\<rparr>) (label_race pane),
          icon_race :=
            map_option (\<lambda>w. w\<lparr>label := race_icon_path_stem u @ ''_30.png''\<rparr>) (icon_race pane),
          icon_alignment :=
            map_option
              (\<lambda>w. w\<lparr>label := ''icons/alignments/alignment_'' @ alignment_string u @ ''_30.png'',
                      tooltip := alignment_description u\<rparr>)
              (icon_alignment pane),
          label_details :=
            map_option (\<lambda>w. w\<lparr>label := details_text env u, use_markup := True\<rparr>)
              (label_details pane),
          tree_details := map_option (\<lambda>nodes. details_nodes env u) (tree_details pane)\<rparr>"

section \<open>Properties\<close>

subsection \<open>Helpers\<close>

lemma find_distance_le: "find_distance x xs \<le> length xs"
  by (induction xs) auto

lemma find_distance_mem:
  "x \<in> set xs \<Longrightarrow> find_distance x xs < length xs \<and> xs ! find_distance x xs = x"
  by (induction xs) auto

lemma find_distance_notin: "x \<notin> set xs \<Longrightarrow> find_distance x xs = length xs"
  by (induction xs) auto

lemma find_distance_nth:
  "distinct xs \<Longrightarrow> i < length xs \<Longrightarrow> find_distance (xs ! i) xs = i"
proof (induction xs arbitrary: i)
  case Nil
  then show ?case by simp
next
  case (Cons y ys)
  then show ?case by (cases i) auto
qed

lemma to_int_small: "n < 2 ^ 31 \<Longrightarrow> to_int n = int n"
  by (simp add: to_int_def)

lemma to_int_le: "to_int n \<le> int n"
proof -
  have "(int n + 2 ^ 31) mod 2 ^ 32 \<le> int n + 2 ^ 31"
    by (rule zmod_le_nonneg_dividend) simp
  then show ?thesis by (simp add: to_int_def)
qed

lemma distinct_accl_speeds: "distinct accl_speeds"
  by (simp add: accl_speeds_def)

subsection \<open>The accelerated speed slider\<close>

text \<open>
  C8: saving a valid index of the speed list and loading it again gives the index back,
  provided the preference store returns the speed that was just set.  The entries of
  the list are pairwise distinct, and a valid index is read inside the list.
\<close>

theorem accl_save_load_roundtrip:
  assumes stored: "turbo_speed (set_turbo_speed (accl_speeds ! nat i) s) = accl_speeds ! nat i"
    and lower: "0 \<le> i"
    and upper: "i < int (length accl_speeds)"
  shows "distinct accl_speeds \<and>
         (\<exists>s'. accl_save set_turbo_speed i s = Inr s' \<and> accl_load turbo_speed s' = i)"
proof -
  have inside: "nat i < length accl_speeds"
    using lower upper by linarith
  have saved: "accl_save set_turbo_speed i s = Inr (set_turbo_speed (accl_speeds ! nat i) s)"
    using lower inside by (simp add: accl_save_def element_at_def)
  have "find_distance (accl_speeds ! nat i) accl_speeds = nat i"
    using distinct_accl_speeds inside by (rule find_distance_nth)
  moreover have "nat i < 2 ^ 31"
    using inside by (simp add: accl_speeds_def)
  ultimately have "accl_load turbo_speed (set_turbo_speed (accl_speeds ! nat i) s) = i"
    using stored lower by (simp add: accl_load_def to_int_small)
  with saved distinct_accl_speeds show ?thesis by simp
qed

theorem accl_save_load_roundtrip_witness:
  "distinct accl_speeds \<and>
   (\<exists>s'. accl_save (\<lambda>v s. v) 9 (2::rat) = Inr s' \<and> accl_load (\<lambda>s. s) s' = 9)"
  using accl_save_load_roundtrip [of "\<lambda>s. s" "\<lambda>v s. v" 9 2]
  by (simp add: accl_speeds_def)

subsection \<open>Selecting a row of the friends list\<close>

text \<open>
  C9: \<open>on_friends_list_select\<close> never reads the acquaintance map outside its bounds, and
  for a selected row that is negative or not less than the number of acquaintances it
  returns with the textbox as it was.
\<close>

theorem on_friends_list_select_in_bounds:
  "on_friends_list_select acqs list textbox \<noteq> Inl OutOfRange \<and>
   (selected_row list < 0 \<or> int (length acqs) \<le> selected_row list \<longrightarrow>
      on_friends_list_select acqs list textbox = Inr textbox)"
proof -
  have inside: "nat (selected_row list) < length acqs"
    if "\<not> selected_row list < 0" "\<not> to_int (length acqs) \<le> selected_row list"
    using that to_int_le [of "length acqs"] by linarith
  have outside: "to_int (length acqs) \<le> selected_row list"
    if "int (length acqs) \<le> selected_row list"
    using that to_int_le [of "length acqs"] by linarith
  show ?thesis
    using inside outside
    by (auto simp: on_friends_list_select_def element_at_def Let_def)
qed

theorem on_friends_list_select_in_bounds_witness:
  "int (length [(''ann'', \<lparr>get_nick = ''ann'', get_status = ''friend'', get_notes = ''x''\<rparr>)])
     \<le> selected_row \<lparr>rows = [], selected_row = 1\<rparr> \<and>
   on_friends_list_select
     [(''ann'', \<lparr>get_nick = ''ann'', get_status = ''friend'', get_notes = ''x''\<rparr>)]
     \<lparr>rows = [], selected_row = 1\<rparr> ''bob'' = Inr ''bob''"
  using on_friends_list_select_in_bounds
    [of "[(''ann'', \<lparr>get_nick = ''ann'', get_status = ''friend'', get_notes = ''x''\<rparr>)]"
        "\<lparr>rows = [], selected_row = 1\<rparr>" "''bob''"]
  by simp

subsection \<open>Adding an entry to the friends list\<close>

lemma find_first_of_None: "(find_first_of c s = None) = (c \<notin> set s)"
  by (induction s) auto

lemma find_first_of_Some:
  "find_first_of c s = Some pos \<Longrightarrow>
   pos = length (takeWhile (\<lambda>x. x \<noteq> c) s) \<and> take pos s = takeWhile (\<lambda>x. x \<noteq> c) s"
  by (induction s arbitrary: pos) (auto split: if_splits)

lemma find_first_of_split:
  "(case find_first_of c s of None \<Rightarrow> ([], s) | Some pos \<Rightarrow> (drop (pos + 1) s, take pos s)) =
   (drop (length (takeWhile (\<lambda>x. x \<noteq> c) s) + 1) s, takeWhile (\<lambda>x. x \<noteq> c) s)"
proof (cases "find_first_of c s")
  case None
  then have "c \<notin> set s" by (simp add: find_first_of_None)
  then have whole: "takeWhile (\<lambda>x. x \<noteq> c) s = s" by (auto simp: takeWhile_eq_all_conv)
  show ?thesis unfolding whole using None by simp
next
  case (Some pos)
  from find_first_of_Some [OF Some]
  have both: "pos = length (takeWhile (\<lambda>x. x \<noteq> c) s) \<and> take pos s = takeWhile (\<lambda>x. x \<noteq> c) s" .
  then have pos: "pos = length (takeWhile (\<lambda>x. x \<noteq> c) s)"
    and front: "take pos s = takeWhile (\<lambda>x. x \<noteq> c) s" by blast+
  have "(drop (pos + 1) s, take pos s) =
        (drop (length (takeWhile (\<lambda>x. x \<noteq> c) s) + 1) s, takeWhile (\<lambda>x. x \<noteq> c) s)"
    using front by (simp add: pos [symmetric])
  with Some show ?thesis by simp
qed

text \<open>
  C10: \<open>add_friend_list_entry\<close> is atomic on error.  With an empty textbox it only shows
  the message "No username specified".  When the username, the text up to the first
  space, is rejected by \<open>add_acquaintance\<close> (a null entry, the acquaintances left as they
  were), it only shows the message "Invalid username": no acquaintance is added, the
  listbox, the textbox and the controls are as before.  The text of the textbox
  afterwards is the text before in these two cases and empty in every other case.
\<close>

theorem add_friend_list_entry_atomic:
  "(let entered = friend_name_box d;
        username = takeWhile (\<lambda>c. c \<noteq> CHR '' '') entered;
        reason = drop (length username + 1) entered;
        answer = add_acquaintance username (if is_friend then ''friend'' else ''ignore'') reason
                   (acquaintances d);
        after = add_friend_list_entry tr add_acquaintance is_friend d
    in (entered = [] \<longrightarrow>
          after = d\<lparr>messages := messages d @ [([], tr ''No username specified'')]\<rparr>) \<and>
       (entered \<noteq> [] \<and> fst (fst answer) = None \<and> snd answer = acquaintances d \<longrightarrow>
          after = d\<lparr>messages := messages d @ [(tr ''Error'', tr ''Invalid username'')]\<rparr>) \<and>
       friend_name_box after = (if entered = [] \<or> fst (fst answer) = None then entered else []))"
proof -
  define entered where "entered = friend_name_box d"
  define username where "username = takeWhile (\<lambda>c. c \<noteq> CHR '' '') entered"
  define reason where "reason = drop (length username + 1) entered"
  define answer where
    "answer = add_acquaintance username (if is_friend then ''friend'' else ''ignore'') reason
                (acquaintances d)"
  have parse: "(case find_first_of CHR '' '' entered of
                 None \<Rightarrow> ([], entered)
               | Some pos \<Rightarrow> (drop (pos + 1) entered, take pos entered)) = (reason, username)"
    unfolding reason_def username_def by (rule find_first_of_split)
  have empty: "add_friend_list_entry tr add_acquaintance is_friend d =
      d\<lparr>messages := messages d @ [([], tr ''No username specified'')]\<rparr>" if "entered = []"
    using that by (simp add: add_friend_list_entry_def entered_def)
  have rejected: "add_friend_list_entry tr add_acquaintance is_friend d =
      d\<lparr>acquaintances := snd answer,
        messages := messages d @ [(tr ''Error'', tr ''Invalid username'')]\<rparr>"
    if "entered \<noteq> []" "fst (fst answer) = None"
    using that parse
    by (simp add: add_friend_list_entry_def entered_def [symmetric] answer_def [symmetric]
          Let_def split_beta del: One_nat_def add_Suc_right)
  have accepted: "friend_name_box (add_friend_list_entry tr add_acquaintance is_friend d) = []"
    if "entered \<noteq> []" "fst (fst answer) \<noteq> None"
    using that parse
    by (auto simp add: add_friend_list_entry_def entered_def [symmetric] answer_def [symmetric]
          Let_def split_beta update_friends_list_controls_def
          simp del: One_nat_def add_Suc_right)
  have box: "friend_name_box (add_friend_list_entry tr add_acquaintance is_friend d) =
      (if entered = [] \<or> fst (fst answer) = None then entered else [])"
  proof (cases "entered = []")
    case True
    with empty show ?thesis by (simp add: entered_def)
  next
    case False
    show ?thesis
    proof (cases "fst (fst answer) = None")
      case True
      with False rejected show ?thesis by (simp add: entered_def)
    next
      case no: False
      with False accepted show ?thesis by simp
    qed
  qed
  have "(entered = [] \<longrightarrow>
          add_friend_list_entry tr add_acquaintance is_friend d =
          d\<lparr>messages := messages d @ [([], tr ''No username specified'')]\<rparr>) \<and>
       (entered \<noteq> [] \<and> fst (fst answer) = None \<and> snd answer = acquaintances d \<longrightarrow>
          add_friend_list_entry tr add_acquaintance is_friend d =
          d\<lparr>messages := messages d @ [(tr ''Error'', tr ''Invalid username'')]\<rparr>) \<and>
       friend_name_box (add_friend_list_entry tr add_acquaintance is_friend d) =
         (if entered = [] \<or> fst (fst answer) = None then entered else [])"
    using empty rejected box by simp
  then show ?thesis
    unfolding Let_def entered_def username_def reason_def answer_def .
qed

theorem add_friend_list_entry_atomic_witness:
  "add_friend_list_entry (\<lambda>m. m)
     (\<lambda>u st r a. if CHR ''*'' \<in> set u then ((None, False), a)
        else ((Some \<lparr>get_nick = u, get_status = st, get_notes = r\<rparr>, True),
              a @ [(u, \<lparr>get_nick = u, get_status = st, get_notes = r\<rparr>)]))
     True
     \<lparr>acquaintances = [], friends_list = \<lparr>rows = [], selected_row = - 1\<rparr>,
      friend_name_box = ''a*b hello'', remove_active = False,
      no_friends_notice_visible = True, messages = []\<rparr>
   = \<lparr>acquaintances = [], friends_list = \<lparr>rows = [], selected_row = - 1\<rparr>,
      friend_name_box = ''a*b hello'', remove_active = False,
      no_friends_notice_visible = True, messages = [(''Error'', ''Invalid username'')]\<rparr> \<and>
   add_friend_list_entry (\<lambda>m. m)
     (\<lambda>u st r a. if CHR ''*'' \<in> set u then ((None, False), a)
        else ((Some \<lparr>get_nick = u, get_status = st, get_notes = r\<rparr>, True),
              a @ [(u, \<lparr>get_nick = u, get_status = st, get_notes = r\<rparr>)]))
     True
     \<lparr>acquaintances = [], friends_list = \<lparr>rows = [], selected_row = - 1\<rparr>,
      friend_name_box = [], remove_active = False,
      no_friends_notice_visible = True, messages = []\<rparr>
   = \<lparr>acquaintances = [], friends_list = \<lparr>rows = [], selected_row = - 1\<rparr>,
      friend_name_box = [], remove_active = False,
      no_friends_notice_visible = True, messages = [([], ''No username specified'')]\<rparr>"
  using add_friend_list_entry_atomic
    [of "\<lparr>acquaintances = [], friends_list = \<lparr>rows = [], selected_row = - 1\<rparr>,
      friend_name_box = ''a*b hello'', remove_active = False,
      no_friends_notice_visible = True, messages = []\<rparr>"
     "\<lambda>u st r a. if CHR ''*'' \<in> set u then ((None, False), a)
        else ((Some \<lparr>get_nick = u, get_status = st, get_notes = r\<rparr>, True),
              a @ [(u, \<lparr>get_nick = u, get_status = st, get_notes = r\<rparr>)])"
     True "\<lambda>m. m"]
    add_friend_list_entry_atomic
    [of "\<lparr>acquaintances = [], friends_list = \<lparr>rows = [], selected_row = - 1\<rparr>,
      friend_name_box = [], remove_active = False,
      no_friends_notice_visible = True, messages = []\<rparr>"
     "\<lambda>u st r a. if CHR ''*'' \<in> set u then ((None, False), a)
        else ((Some \<lparr>get_nick = u, get_status = st, get_notes = r\<rparr>, True),
              a @ [(u, \<lparr>get_nick = u, get_status = st, get_notes = r\<rparr>)])"
     True "\<lambda>m. m"]
  by (simp add: Let_def)

subsection \<open>Initial selection of a combo option\<close>

lemma combo_choices_ids:
  "snd (combo_choices cs menu_data option_ids) =
   option_ids @ map (\<lambda>choice. attribute choice ''id'') cs"
  by (induction cs arbitrary: menu_data option_ids) (auto simp: Let_def)

lemma find_distance_take: "x \<notin> set (take (find_distance x xs) xs)"
  by (induction xs) auto

text \<open>
  C4: for a combo option, let \<open>v\<close> be the stored value of the preference or, when none is
  stored, the \<open>default\<close> attribute of the option.  When \<open>v\<close> is among the ids of the
  choices, the selected index is the position of its first occurrence there; when it is
  not, the selection is 0.  The number of choices is one that an \<open>int\<close> holds.
\<close>

theorem combo_menu_selected:
  assumes fits: "length (child_range (opt_cfg opt) ''option'') < 2 ^ 31"
  shows "(let ids = map (\<lambda>choice. attribute choice ''id'') (child_range (opt_cfg opt) ''option'');
        v = (case prefs (opt_field opt) of
               Some stored \<Rightarrow> stored
             | None \<Rightarrow> attribute (opt_cfg opt) ''default'');
        selected = snd (combo_menu prefs opt)
    in if v \<in> set ids
       then 0 \<le> selected \<and> nat selected < length ids \<and> ids ! nat selected = v \<and>
            v \<notin> set (take (nat selected) ids)
       else selected = 0)"
proof -
  define ids where
    "ids = map (\<lambda>choice. attribute choice ''id'') (child_range (opt_cfg opt) ''option'')"
  define v where
    "v = (case prefs (opt_field opt) of
            Some stored \<Rightarrow> stored
          | None \<Rightarrow> attribute (opt_cfg opt) ''default'')"
  have v: "preferences_get prefs (opt_field opt) (attribute (opt_cfg opt) ''default'') = v"
    by (simp add: preferences_get_def v_def)
  have ids: "snd (combo_choices (child_range (opt_cfg opt) ''option'') [] []) = ids"
    by (simp add: combo_choices_ids ids_def)
  have size: "to_int (length ids) = int (length ids)"
    using fits by (simp add: to_int_small ids_def)
  have "find_distance v ids \<le> length ids"
    by (rule find_distance_le)
  with fits have "to_int (find_distance v ids) = int (find_distance v ids)"
    by (simp add: to_int_small ids_def)
  with size have sel: "snd (combo_menu prefs opt) =
      (if int (length ids) \<le> int (find_distance v ids) then 0 else int (find_distance v ids))"
    using ids v by (simp add: combo_menu_def Let_def split_beta)
  show ?thesis
  proof (cases "v \<in> set ids")
    case True
    from find_distance_mem [OF True] find_distance_take [of v ids] sel True
    show ?thesis unfolding Let_def ids_def [symmetric] v_def [symmetric] by simp
  next
    case False
    from find_distance_notin [OF False] sel False
    show ?thesis unfolding Let_def ids_def [symmetric] v_def [symmetric] by simp
  qed
qed

theorem combo_menu_selected_witness:
  "0 \<le> snd (combo_menu (Map.empty(''theme'' \<mapsto> ''dark''))
       \<lparr>opt_field = ''theme'', opt_name = ''Theme'', opt_description = [], opt_type = COMBO,
        opt_cfg = Config [(''default'', ''light'')]
                    [(''option'', Config [(''id'', ''light''), (''name'', ''Light'')] []),
                     (''option'', Config [(''id'', ''dark''), (''name'', ''Dark'')] [])]\<rparr>) \<and>
   [''light'', ''dark''] !
     nat (snd (combo_menu (Map.empty(''theme'' \<mapsto> ''dark''))
       \<lparr>opt_field = ''theme'', opt_name = ''Theme'', opt_description = [], opt_type = COMBO,
        opt_cfg = Config [(''default'', ''light'')]
                    [(''option'', Config [(''id'', ''light''), (''name'', ''Light'')] []),
                     (''option'', Config [(''id'', ''dark''), (''name'', ''Dark'')] [])]\<rparr>)) = ''dark'' \<and>
   snd (combo_menu (Map.empty(''theme'' \<mapsto> ''blue''))
       \<lparr>opt_field = ''theme'', opt_name = ''Theme'', opt_description = [], opt_type = COMBO,
        opt_cfg = Config [(''default'', ''light'')]
                    [(''option'', Config [(''id'', ''light''), (''name'', ''Light'')] []),
                     (''option'', Config [(''id'', ''dark''), (''name'', ''Dark'')] [])]\<rparr>) = 0"
  using combo_menu_selected
    [of "\<lparr>opt_field = ''theme'', opt_name = ''Theme'', opt_description = [], opt_type = COMBO,
        opt_cfg = Config [(''default'', ''light'')]
                    [(''option'', Config [(''id'', ''light''), (''name'', ''Light'')] []),
                     (''option'', Config [(''id'', ''dark''), (''name'', ''Dark'')] [])]\<rparr>"
        "Map.empty(''theme'' \<mapsto> ''dark'')"]
    combo_menu_selected
    [of "\<lparr>opt_field = ''theme'', opt_name = ''Theme'', opt_description = [], opt_type = COMBO,
        opt_cfg = Config [(''default'', ''light'')]
                    [(''option'', Config [(''id'', ''light''), (''name'', ''Light'')] []),
                     (''option'', Config [(''id'', ''dark''), (''name'', ''Dark'')] [])]\<rparr>"
        "Map.empty(''theme'' \<mapsto> ''blue'')"]
  by (simp add: Let_def child_range_def attribute_def)

subsection \<open>The hotkeys panel\<close>

lemma search_words_all:
  "search_words env descr ws found =
   (if ws = [] then found else (\<forall>word\<in>set ws. ci_search env descr word))"
  by (induction ws arbitrary: found) (auto simp: Let_def)

lemma category_index_find: "category_index c cats k = k + find_distance c cats"
  by (induction cats arbitrary: k) auto

lemma toggled_on_iff:
  assumes "distinct cats" and "length ts = length cats" and "c \<in> set cats"
  shows "(c \<in> set (map fst (filter snd (zip cats ts)))) = ts ! find_distance c cats"
proof -
  let ?k = "find_distance c cats"
  from find_distance_mem [OF assms(3)] have k: "?k < length cats" "cats ! ?k = c" by simp_all
  show ?thesis
  proof
    assume "c \<in> set (map fst (filter snd (zip cats ts)))"
    then obtain b where "(c, b) \<in> set (zip cats ts)" and "b" by auto
    then obtain i where i: "i < length cats" "cats ! i = c" "ts ! i = b"
      by (auto simp: set_zip)
    from i(1,2) have "find_distance (cats ! i) cats = i"
      using find_distance_nth [OF assms(1) i(1)] by simp
    with i(2) have "i = ?k" by simp
    with i \<open>b\<close> show "ts ! ?k" by simp
  next
    assume on: "ts ! ?k"
    from k assms(2) have "?k < length (zip cats ts)" by simp
    then have "zip cats ts ! ?k \<in> set (zip cats ts)" by (rule nth_mem)
    with k assms(2) have "(cats ! ?k, ts ! ?k) \<in> set (zip cats ts)" by simp
    with on k(2) have "(c, True) \<in> set (filter snd (zip cats ts))" by simp
    then show "c \<in> set (map fst (filter snd (zip cats ts)))" by force
  qed
qed

text \<open>
  C1: after \<open>hotkey_filter_callback\<close>, row \<open>h\<close> of the hotkey list is shown if and only if
  the filter text is empty or every word of the filter text is found, without regard to
  case, in the description of hotkey \<open>h\<close>, and the category of hotkey \<open>h\<close> is among the
  categories whose checkbox is on in the category menu, or no checkbox is on at all.
  The category menu has one checkbox per visible category, as \<open>setup_hotkey_list\<close>
  leaves it.
\<close>

theorem hotkey_filter_callback_shown:
  assumes h: "h < length (visible_hotkeys p)"
    and size: "length (toggle_states p) = length (visible_categories p)"
    and dist: "distinct (visible_categories p)"
    and known: "category (visible_hotkeys p ! h) \<in> set (visible_categories p)"
  shows "length (row_shown (hotkey_filter_callback env p)) = length (visible_hotkeys p) \<and>
         row_shown (hotkey_filter_callback env p) ! h =
         ((filter_text p = [] \<or>
           (\<forall>word\<in>set (utils_split env (filter_text p)).
              ci_search env (description (visible_hotkeys p ! h)) word)) \<and>
          category (visible_hotkeys p ! h) \<in>
            (if True \<notin> set (toggle_states p) then set (visible_categories p)
             else set (map fst (filter snd (zip (visible_categories p) (toggle_states p))))))"
proof -
  let ?hk = "visible_hotkeys p ! h"
  let ?cats = "visible_categories p"
  let ?ts = "toggle_states p"
  let ?k = "find_distance (category ?hk) ?cats"
  let ?states = "if True \<notin> set ?ts then map Not ?ts else ?ts"
  from find_distance_mem [OF known] size have k: "?k < length ?ts" by simp
  have found: "(if filter_text p \<noteq> []
                then search_words env (description ?hk) (utils_split env (filter_text p)) True
                else True) =
               (filter_text p = [] \<or>
                (\<forall>word\<in>set (utils_split env (filter_text p)). ci_search env (description ?hk) word))"
    by (auto simp: search_words_all)
  have row: "row_shown (hotkey_filter_callback env p) ! h =
             hotkey_row_result env (filter_text p) ?states ?cats ?hk"
    using h by (simp add: hotkey_filter_callback_def Let_def)
  have res: "hotkey_row_result env (filter_text p) ?states ?cats ?hk =
             ((filter_text p = [] \<or>
                (\<forall>word\<in>set (utils_split env (filter_text p)). ci_search env (description ?hk) word)) \<and>
              ?states ! ?k)"
    unfolding hotkey_row_result_def Let_def found category_index_find using k by auto
  have cat: "?states ! ?k =
             (category ?hk \<in>
               (if True \<notin> set ?ts then set ?cats else set (map fst (filter snd (zip ?cats ?ts)))))"
  proof (cases "True \<notin> set ?ts")
    case True
    with k have "\<not> ?ts ! ?k" by (metis nth_mem)
    with True k known show ?thesis by simp
  next
    case False
    with toggled_on_iff [OF dist size known] show ?thesis by simp
  qed
  have "length (row_shown (hotkey_filter_callback env p)) = length (visible_hotkeys p)"
    by (simp add: hotkey_filter_callback_def Let_def)
  with row res cat show ?thesis by simp
qed


lemma hotkey_commands_loop_eq:
  "hotkey_commands_loop env commands (hotkeys, categories, rws) =
   (hotkeys @ filter (\<lambda>c. \<not> hidden c) (map snd commands),
    fold (\<lambda>c. set_insert (category c)) (filter (\<lambda>c. \<not> hidden c) (map snd commands)) categories,
    rws @ map (hotkey_row_data env) (filter (\<lambda>c. \<not> hidden c) (map snd commands)))"
  by (induction commands arbitrary: hotkeys categories rws) auto

lemma set_set_insert: "set (set_insert x xs) = insert x (set xs)"
  by (induction xs) auto

lemma sorted_set_insert: "sorted_wrt (<) xs \<Longrightarrow> sorted_wrt (<) (set_insert x xs)"
  by (induction xs) (auto simp: set_set_insert)

lemma fold_set_insert:
  "sorted_wrt (<) cats \<Longrightarrow>
   sorted_wrt (<) (fold (\<lambda>c. set_insert (category c)) cs cats) \<and>
   set (fold (\<lambda>c. set_insert (category c)) cs cats) = set cats \<union> category ` set cs"
  by (induction cs arbitrary: cats) (auto simp: set_set_insert sorted_set_insert)

text \<open>What \<open>setup_hotkey_list\<close> leaves behind: the visible categories are pairwise
  distinct and are the categories of the visible hotkeys, and the category menu has one
  checkbox for each of them, all off.\<close>

lemma setup_hotkey_list_categories:
  "distinct (visible_categories (setup_hotkey_list env commands p)) \<and>
   length (toggle_states (setup_hotkey_list env commands p)) =
     length (visible_categories (setup_hotkey_list env commands p)) \<and>
   True \<notin> set (toggle_states (setup_hotkey_list env commands p)) \<and>
   category ` set (visible_hotkeys (setup_hotkey_list env commands p)) =
     set (visible_categories (setup_hotkey_list env commands p))"
proof -
  have "sorted_wrt (<) ([] :: nat list)" by simp
  from fold_set_insert [OF this, of "filter (\<lambda>c. \<not> hidden c) (map snd commands)"]
  show ?thesis
    by (auto simp: setup_hotkey_list_def hotkey_commands_loop_eq Let_def strict_sorted_iff)
qed

text \<open>
  C6: \<open>setup_hotkey_list\<close> adds one row for each command that is not hidden, in order,
  and none for a hidden one; in row \<open>i\<close> the game, editor and main menu cells are not
  empty exactly when the scope flag of the command is set, and then hold the translated
  initial inside its colour markup.
\<close>

theorem setup_hotkey_list_rows:
  assumes i: "i < length (filter (\<lambda>c. \<not> hidden c) (map snd commands))"
  shows "(let p' = setup_hotkey_list env commands p;
              shown = filter (\<lambda>c. \<not> hidden c) (map snd commands);
              r = list_hotkeys p' ! i;
              c = shown ! i
          in length (list_hotkeys p') = length shown \<and>
             visible_hotkeys p' = shown \<and>
             lbl_desc r = description c \<and>
             (lbl_is_game r \<noteq> []) = scope_game c \<and>
             (lbl_is_editor r \<noteq> []) = scope_editor c \<and>
             (lbl_is_mainmenu r \<noteq> []) = scope_main_menu c \<and>
             lbl_is_game r =
               (if scope_game c
                then ''<span color='' @ apostrophe @ ''#0f0'' @ apostrophe @ ''>'' @
                     gettext env ''game_hotkeys^G'' @ ''</span>''
                else []) \<and>
             lbl_is_editor r =
               (if scope_editor c
                then ''<span color='' @ apostrophe @ ''#0f0'' @ apostrophe @ ''>'' @
                     gettext env ''editor_hotkeys^E'' @ ''</span>''
                else []) \<and>
             lbl_is_mainmenu r =
               (if scope_main_menu c
                then ''<span color='' @ apostrophe @ ''#0f0'' @ apostrophe @ ''>'' @
                     gettext env ''mainmenu_hotkeys^M'' @ ''</span>''
                else []))"
  using i
  by (simp add: setup_hotkey_list_def hotkey_commands_loop_eq Let_def hotkey_row_data_def)


theorem hotkey_filter_callback_shown_witness:
  "row_shown (hotkey_filter_callback
     \<lparr>gettext = (\<lambda>m. m), file_exists = (\<lambda>f. False), game_config_path = ''/data'',
        get_names = (\<lambda>c. ''ctrl+s''), get_translatable_category_name = (\<lambda>c. ''General''),
        utils_split = (\<lambda>t. [t]), ci_search = (\<lambda>d w. take (length w) d = w)\<rparr>
     \<lparr>visible_hotkeys = [\<lparr>command_id = ''save'', description = ''Save Game'', hidden = False,
         scope_game = True, scope_editor = False, scope_main_menu = False, category = 4\<rparr>,
        \<lparr>command_id = ''quit'', description = ''Quit'', hidden = False,
         scope_game = True, scope_editor = True, scope_main_menu = True, category = 7\<rparr>],
      visible_categories = [4, 7], list_hotkeys = [], row_shown = [],
      category_menu_values = [''Saves'', ''General''], toggle_states = [False, True],
      filter_text = ''Qu''\<rparr>) ! 1 \<and>
   \<not> row_shown (hotkey_filter_callback
     \<lparr>gettext = (\<lambda>m. m), file_exists = (\<lambda>f. False), game_config_path = ''/data'',
        get_names = (\<lambda>c. ''ctrl+s''), get_translatable_category_name = (\<lambda>c. ''General''),
        utils_split = (\<lambda>t. [t]), ci_search = (\<lambda>d w. take (length w) d = w)\<rparr>
     \<lparr>visible_hotkeys = [\<lparr>command_id = ''save'', description = ''Save Game'', hidden = False,
         scope_game = True, scope_editor = False, scope_main_menu = False, category = 4\<rparr>,
        \<lparr>command_id = ''quit'', description = ''Quit'', hidden = False,
         scope_game = True, scope_editor = True, scope_main_menu = True, category = 7\<rparr>],
      visible_categories = [4, 7], list_hotkeys = [], row_shown = [],
      category_menu_values = [''Saves'', ''General''], toggle_states = [False, True],
      filter_text = ''Qu''\<rparr>) ! 0"
  using hotkey_filter_callback_shown
    [of 1 "\<lparr>visible_hotkeys = [\<lparr>command_id = ''save'', description = ''Save Game'', hidden = False,
         scope_game = True, scope_editor = False, scope_main_menu = False, category = 4\<rparr>,
        \<lparr>command_id = ''quit'', description = ''Quit'', hidden = False,
         scope_game = True, scope_editor = True, scope_main_menu = True, category = 7\<rparr>],
      visible_categories = [4, 7], list_hotkeys = [], row_shown = [],
      category_menu_values = [''Saves'', ''General''], toggle_states = [False, True],
      filter_text = ''Qu''\<rparr>"
     "\<lparr>gettext = (\<lambda>m. m), file_exists = (\<lambda>f. False), game_config_path = ''/data'',
        get_names = (\<lambda>c. ''ctrl+s''), get_translatable_category_name = (\<lambda>c. ''General''),
        utils_split = (\<lambda>t. [t]), ci_search = (\<lambda>d w. take (length w) d = w)\<rparr>"]
    hotkey_filter_callback_shown
    [of 0 "\<lparr>visible_hotkeys = [\<lparr>command_id = ''save'', description = ''Save Game'', hidden = False,
         scope_game = True, scope_editor = False, scope_main_menu = False, category = 4\<rparr>,
        \<lparr>command_id = ''quit'', description = ''Quit'', hidden = False,
         scope_game = True, scope_editor = True, scope_main_menu = True, category = 7\<rparr>],
      visible_categories = [4, 7], list_hotkeys = [], row_shown = [],
      category_menu_values = [''Saves'', ''General''], toggle_states = [False, True],
      filter_text = ''Qu''\<rparr>"
     "\<lparr>gettext = (\<lambda>m. m), file_exists = (\<lambda>f. False), game_config_path = ''/data'',
        get_names = (\<lambda>c. ''ctrl+s''), get_translatable_category_name = (\<lambda>c. ''General''),
        utils_split = (\<lambda>t. [t]), ci_search = (\<lambda>d w. take (length w) d = w)\<rparr>"]
  by simp

theorem setup_hotkey_list_rows_witness:
  "length (list_hotkeys (setup_hotkey_list
     \<lparr>gettext = (\<lambda>m. m), file_exists = (\<lambda>f. False), game_config_path = ''/data'',
        get_names = (\<lambda>c. ''ctrl+s''), get_translatable_category_name = (\<lambda>c. ''General''),
        utils_split = (\<lambda>t. [t]), ci_search = (\<lambda>d w. take (length w) d = w)\<rparr>
     [(''null'', \<lparr>command_id = ''null'', description = ''Nothing'', hidden = True,
         scope_game = True, scope_editor = True, scope_main_menu = True, category = 0\<rparr>),
      (''save'', \<lparr>command_id = ''save'', description = ''Save Game'', hidden = False,
         scope_game = True, scope_editor = False, scope_main_menu = False, category = 4\<rparr>)]
     \<lparr>visible_hotkeys = [], visible_categories = [], list_hotkeys = [], row_shown = [],
      category_menu_values = [], toggle_states = [], filter_text = []\<rparr>)) = 1 \<and>
   lbl_is_game (list_hotkeys (setup_hotkey_list
     \<lparr>gettext = (\<lambda>m. m), file_exists = (\<lambda>f. False), game_config_path = ''/data'',
        get_names = (\<lambda>c. ''ctrl+s''), get_translatable_category_name = (\<lambda>c. ''General''),
        utils_split = (\<lambda>t. [t]), ci_search = (\<lambda>d w. take (length w) d = w)\<rparr>
     [(''null'', \<lparr>command_id = ''null'', description = ''Nothing'', hidden = True,
         scope_game = True, scope_editor = True, scope_main_menu = True, category = 0\<rparr>),
      (''save'', \<lparr>command_id = ''save'', description = ''Save Game'', hidden = False,
         scope_game = True, scope_editor = False, scope_main_menu = False, category = 4\<rparr>)]
     \<lparr>visible_hotkeys = [], visible_categories = [], list_hotkeys = [], row_shown = [],
      category_menu_values = [], toggle_states = [], filter_text = []\<rparr>) ! 0) = ''<span color='' @ apostrophe @ ''#0f0'' @ apostrophe @ ''>game_hotkeys^G</span>'' \<and>
   lbl_is_editor (list_hotkeys (setup_hotkey_list
     \<lparr>gettext = (\<lambda>m. m), file_exists = (\<lambda>f. False), game_config_path = ''/data'',
        get_names = (\<lambda>c. ''ctrl+s''), get_translatable_category_name = (\<lambda>c. ''General''),
        utils_split = (\<lambda>t. [t]), ci_search = (\<lambda>d w. take (length w) d = w)\<rparr>
     [(''null'', \<lparr>command_id = ''null'', description = ''Nothing'', hidden = True,
         scope_game = True, scope_editor = True, scope_main_menu = True, category = 0\<rparr>),
      (''save'', \<lparr>command_id = ''save'', description = ''Save Game'', hidden = False,
         scope_game = True, scope_editor = False, scope_main_menu = False, category = 4\<rparr>)]
     \<lparr>visible_hotkeys = [], visible_categories = [], list_hotkeys = [], row_shown = [],
      category_menu_values = [], toggle_states = [], filter_text = []\<rparr>) ! 0) = []"
  using setup_hotkey_list_rows
    [of 0 "[(''null'', \<lparr>command_id = ''null'', description = ''Nothing'', hidden = True,
         scope_game = True, scope_editor = True, scope_main_menu = True, category = 0\<rparr>),
      (''save'', \<lparr>command_id = ''save'', description = ''Save Game'', hidden = False,
         scope_game = True, scope_editor = False, scope_main_menu = False, category = 4\<rparr>)]"
     "\<lparr>gettext = (\<lambda>m. m), file_exists = (\<lambda>f. False), game_config_path = ''/data'',
        get_names = (\<lambda>c. ''ctrl+s''), get_translatable_category_name = (\<lambda>c. ''General''),
        utils_split = (\<lambda>t. [t]), ci_search = (\<lambda>d w. take (length w) d = w)\<rparr>"
     "\<lparr>visible_hotkeys = [], visible_categories = [], list_hotkeys = [], row_shown = [],
      category_menu_values = [], toggle_states = [], filter_text = []\<rparr>"]
  by (simp add: Let_def)

subsection \<open>Activation of the unit preview pane\<close>

text \<open>
  C5: for every pane and every boolean, \<open>set_active\<close> leaves the pane as it is,
  \<open>get_active\<close> answers true and \<open>get_state\<close> answers \<open>ENABLED\<close>, before and after.
\<close>

theorem set_active_read_only:
  "set_active b pane = pane \<and>
   get_active pane = True \<and> get_active (set_active b pane) = True \<and>
   get_state pane = ENABLED \<and> get_state (set_active b pane) = ENABLED"
  by (simp add: set_active_def get_active_def get_state_def)

subsection \<open>Tooltips of the unit preview pane\<close>

lemma wrap_int_id: "is_int x \<Longrightarrow> wrap_int x = x"
  by (simp add: is_int_def wrap_int_def)

lemma hexagon_loop_eq:
  "hexagon_loop i n out = out @ concat (replicate (nat (n - i)) hexagon)"
proof (induction i n out rule: hexagon_loop.induct)
  case (1 i n out)
  show ?case
  proof (cases "i < n")
    case True
    then have "nat (n - i) = Suc (nat (n - (i + 1)))" by simp
    with True "1.IH" show ?thesis
      by (subst hexagon_loop.simps) simp
  next
    case False
    then show ?thesis by (subst hexagon_loop.simps) simp
  qed
qed

lemma nat_int_div: "nat (int_div a b) = nat (a div b)"
proof -
  consider "0 \<le> a \<and> 0 \<le> b" | "a \<le> 0 \<and> b \<le> 0" | "0 < a \<and> b < 0" | "a < 0 \<and> 0 < b"
    by linarith
  then show ?thesis
  proof cases
    case 1
    then show ?thesis by (auto simp: int_div_def sgn_if)
  next
    case 2
    then have "\<bar>a\<bar> div \<bar>b\<bar> = a div b"
      by (cases "b = 0"; cases "a = 0"; simp add: abs_if)
    with 2 show ?thesis by (auto simp: int_div_def sgn_if)
  next
    case 3
    then have "\<not> 0 \<le> a div b" by (simp add: div_int_pos_iff)
    then have "a div b \<le> 0" by simp
    moreover from 3 have "int_div a b \<le> 0"
      by (simp add: int_div_def sgn_if pos_imp_zdiv_nonneg_iff)
    ultimately show ?thesis by simp
  next
    case 4
    then have "\<not> 0 \<le> a div b" by (simp add: div_int_pos_iff)
    then have "a div b \<le> 0" by simp
    moreover from 4 have "int_div a b \<le> 0"
      by (simp add: int_div_def sgn_if pos_imp_zdiv_nonneg_iff)
    ultimately show ?thesis by simp
  qed
qed

lemma abs_sgn_mult_le: "0 \<le> q \<Longrightarrow> \<bar>sgn a * sgn b * q\<bar> \<le> (q :: int)"
  by (auto simp: sgn_if)

lemma abs_int_div_le: "\<bar>int_div a b\<bar> \<le> \<bar>a\<bar> div \<bar>b\<bar>"
proof -
  have "0 \<le> \<bar>a\<bar> div \<bar>b\<bar>"
    by (simp add: div_int_pos_iff)
  then show ?thesis
    unfolding int_div_def by (rule abs_sgn_mult_le)
qed

lemma is_int_int_div:
  assumes a: "is_int a" and b: "\<not> (a = - (2 ^ 31) \<and> b = - 1)"
  shows "is_int (int_div a b)"
proof (cases "\<bar>b\<bar> \<le> 1")
  case True
  then consider "b = 0" | "b = 1" | "b = - 1" by linarith
  then show ?thesis
  proof cases
    case 1
    then show ?thesis by (simp add: int_div_def is_int_def)
  next
    case 2
    then have "int_div a b = a" by (simp add: int_div_def sgn_if)
    with a show ?thesis by simp
  next
    case 3
    then have "int_div a b = - a" by (simp add: int_div_def sgn_if)
    with a b 3 show ?thesis by (simp add: is_int_def)
  qed
next
  case False
  then have two: "2 \<le> \<bar>b\<bar>" by simp
  have "\<bar>a\<bar> div \<bar>b\<bar> \<le> \<bar>a\<bar> div 2"
    by (rule zdiv_mono2) (use two in simp_all)
  also have "\<dots> \<le> 2 ^ 31 div 2"
    by (rule zdiv_mono1) (use a in \<open>simp_all add: is_int_def abs_if\<close>)
  also have "\<dots> < (2 ^ 31 :: int)"
    by simp
  finally have "\<bar>int_div a b\<bar> < 2 ^ 31"
    using abs_int_div_le [of a b] by linarith
  then show ?thesis by (simp add: is_int_def abs_if split: if_splits)
qed

lemma mp_tooltip_line_out:
  "mp_tooltip_line env T tm out = out @ mp_tooltip_line env T tm []"
  by (simp add: mp_tooltip_line_def Let_def hexagon_loop_eq)

lemma mp_tooltip_lines_eq:
  "mp_tooltip_lines env T tms out = out @ concat (map (\<lambda>tm. mp_tooltip_line env T tm []) tms)"
proof (induction tms arbitrary: out)
  case Nil
  then show ?case by simp
next
  case (Cons tm tms)
  with mp_tooltip_line_out [of env T tm out] show ?case by simp
qed

text \<open>
  C2: for a terrain with movement cost \<open>m\<close> and a unit with maximum movement \<open>T\<close>, both
  values of \<open>int\<close> for which the sum \<open>T + 5\<close> and the quotient of \<open>T\<close> by \<open>m\<close> are values of
  \<open>int\<close> as well, the line of the tooltip shows the figure dash when \<open>m > T + 5\<close>, the
  number \<open>m\<close> in parentheses when \<open>T < m \<le> T + 5\<close> and the plain number \<open>m\<close> when \<open>m \<le> T\<close>.
  When \<open>m\<close> is not zero, a space and \<open>\<lfloor>T / m\<rfloor>\<close> hexagons follow the cost (none when the
  quotient is negative); when \<open>m\<close> is zero nothing follows it.  The tooltip is the header
  followed by one such line for every listed terrain.
\<close>

theorem get_mp_tooltip_costs:
  assumes total: "is_int T"
    and cost: "is_int (moves tm)"
    and margin: "is_int (T + 5)"
    and quotient: "\<not> (T = - (2 ^ 31) \<and> moves tm = - 1)"
  shows "mp_tooltip_line env T tm [] =
     newline @ unicode_bullet @ '' '' @ tm_name tm @ '': '' @
     ''<span color='' @ apostrophe @ movement_color env (moves tm) @ apostrophe @ ''>'' @
     (if moves tm > T + 5 then unicode_figure_dash
      else if T < moves tm then ''('' @ ostream_int (moves tm) @ '')''
      else ostream_int (moves tm)) @
     (if moves tm \<noteq> 0 then '' '' @ concat (replicate (nat (T div moves tm)) hexagon) else []) @
     ''</span>'' \<and>
   get_mp_tooltip env T get =
     (case load_terrain_types_data env of
        None \<Rightarrow> []
      | Some tdata \<Rightarrow>
          ''<big>'' @ translate env ''Movement Costs:'' @ ''</big>'' @
          concat (map (\<lambda>tm. mp_tooltip_line env T tm [])
                    (terrain_moves_loop env tdata get (encountered_terrains env) [])))"
proof -
  have sum: "wrap_int (T + 5) = T + 5"
    using margin by (rule wrap_int_id)
  have "is_int (int_div T (moves tm))"
    using total quotient by (rule is_int_int_div)
  then have quot: "wrap_int (int_div T (moves tm)) = int_div T (moves tm)"
    by (rule wrap_int_id)
  have line: "mp_tooltip_line env T tm [] =
     newline @ unicode_bullet @ '' '' @ tm_name tm @ '': '' @
     ''<span color='' @ apostrophe @ movement_color env (moves tm) @ apostrophe @ ''>'' @
     (if moves tm > T + 5 then unicode_figure_dash
      else if T < moves tm then ''('' @ ostream_int (moves tm) @ '')''
      else ostream_int (moves tm)) @
     (if moves tm \<noteq> 0 then '' '' @ concat (replicate (nat (T div moves tm)) hexagon) else []) @
     ''</span>''"
    by (simp add: mp_tooltip_line_def Let_def sum quot hexagon_loop_eq nat_int_div)
  have whole: "get_mp_tooltip env T get =
     (case load_terrain_types_data env of
        None \<Rightarrow> []
      | Some tdata \<Rightarrow>
          ''<big>'' @ translate env ''Movement Costs:'' @ ''</big>'' @
          concat (map (\<lambda>tm. mp_tooltip_line env T tm [])
                    (terrain_moves_loop env tdata get (encountered_terrains env) [])))"
    by (simp add: get_mp_tooltip_def mp_tooltip_lines_eq Let_def split: option.splits)
  from line whole show ?thesis by simp
qed

theorem get_mp_tooltip_costs_witness:
  "mp_tooltip_line
     \<lparr>translate = (\<lambda>m. m), dgettext = (\<lambda>d m. m), vgettext = (\<lambda>m syms. m),
      resistance_color = (\<lambda>r. ''#ffffff''), signed_percent = (\<lambda>r. if r < 0 then ''-'' else ''+''),
      movement_color = (\<lambda>m. ''#00ff00''),
      load_terrain_types_data =
        Some (\<lambda>t. \<lparr>is_indivisible = True, is_nonnull = True, terrain_name = ''Hills''\<rparr>),
      encountered_terrains = [(1, 0)], FOGGED = (0, 0), VOID_TERRAIN = (0, 1),
      matches_all_off_map = (\<lambda>t. False), terrain_moves_emplace = (\<lambda>tm tms. tms @ [tm]),
      span_color = (\<lambda>c. ''<span>''), unit_type_color = (0, 0, 0, 0),
      weapon_details_color = (0, 0, 0, 0), weapon_numbers_sep = ''x'', weapon_details_sep = ''-'',
      leader_crown = ''crown.png'', utils_join = (\<lambda>xs sep. concat xs), get_acceleration = 100,
      image_file_exists = (\<lambda>f. True), string_table = (\<lambda>k. k)\<rparr>
     5 \<lparr>tm_name = ''Hills'', moves = 2\<rparr> [] =
   newline @ unicode_bullet @ '' Hills: <span color='' @ apostrophe @ ''#00ff00'' @ apostrophe @
   ''>2 '' @ hexagon @ hexagon @ ''</span>'' \<and>
   mp_tooltip_line
     \<lparr>translate = (\<lambda>m. m), dgettext = (\<lambda>d m. m), vgettext = (\<lambda>m syms. m),
      resistance_color = (\<lambda>r. ''#ffffff''), signed_percent = (\<lambda>r. if r < 0 then ''-'' else ''+''),
      movement_color = (\<lambda>m. ''#00ff00''),
      load_terrain_types_data =
        Some (\<lambda>t. \<lparr>is_indivisible = True, is_nonnull = True, terrain_name = ''Hills''\<rparr>),
      encountered_terrains = [(1, 0)], FOGGED = (0, 0), VOID_TERRAIN = (0, 1),
      matches_all_off_map = (\<lambda>t. False), terrain_moves_emplace = (\<lambda>tm tms. tms @ [tm]),
      span_color = (\<lambda>c. ''<span>''), unit_type_color = (0, 0, 0, 0),
      weapon_details_color = (0, 0, 0, 0), weapon_numbers_sep = ''x'', weapon_details_sep = ''-'',
      leader_crown = ''crown.png'', utils_join = (\<lambda>xs sep. concat xs), get_acceleration = 100,
      image_file_exists = (\<lambda>f. True), string_table = (\<lambda>k. k)\<rparr>
     5 \<lparr>tm_name = ''Swamp'', moves = 7\<rparr> [] =
   newline @ unicode_bullet @ '' Swamp: <span color='' @ apostrophe @ ''#00ff00'' @ apostrophe @
   ''>(7) </span>'' \<and>
   mp_tooltip_line
     \<lparr>translate = (\<lambda>m. m), dgettext = (\<lambda>d m. m), vgettext = (\<lambda>m syms. m),
      resistance_color = (\<lambda>r. ''#ffffff''), signed_percent = (\<lambda>r. if r < 0 then ''-'' else ''+''),
      movement_color = (\<lambda>m. ''#00ff00''),
      load_terrain_types_data =
        Some (\<lambda>t. \<lparr>is_indivisible = True, is_nonnull = True, terrain_name = ''Hills''\<rparr>),
      encountered_terrains = [(1, 0)], FOGGED = (0, 0), VOID_TERRAIN = (0, 1),
      matches_all_off_map = (\<lambda>t. False), terrain_moves_emplace = (\<lambda>tm tms. tms @ [tm]),
      span_color = (\<lambda>c. ''<span>''), unit_type_color = (0, 0, 0, 0),
      weapon_details_color = (0, 0, 0, 0), weapon_numbers_sep = ''x'', weapon_details_sep = ''-'',
      leader_crown = ''crown.png'', utils_join = (\<lambda>xs sep. concat xs), get_acceleration = 100,
      image_file_exists = (\<lambda>f. True), string_table = (\<lambda>k. k)\<rparr>
     5 \<lparr>tm_name = ''Chasm'', moves = 99\<rparr> [] =
   newline @ unicode_bullet @ '' Chasm: <span color='' @ apostrophe @ ''#00ff00'' @ apostrophe @
   ''>'' @ unicode_figure_dash @ '' </span>''"
  using get_mp_tooltip_costs
    [where env = "\<lparr>translate = (\<lambda>m. m), dgettext = (\<lambda>d m. m), vgettext = (\<lambda>m syms. m),
      resistance_color = (\<lambda>r. ''#ffffff''), signed_percent = (\<lambda>r. if r < 0 then ''-'' else ''+''),
      movement_color = (\<lambda>m. ''#00ff00''),
      load_terrain_types_data =
        Some (\<lambda>t. \<lparr>is_indivisible = True, is_nonnull = True, terrain_name = ''Hills''\<rparr>),
      encountered_terrains = [(1, 0)], FOGGED = (0, 0), VOID_TERRAIN = (0, 1),
      matches_all_off_map = (\<lambda>t. False), terrain_moves_emplace = (\<lambda>tm tms. tms @ [tm]),
      span_color = (\<lambda>c. ''<span>''), unit_type_color = (0, 0, 0, 0),
      weapon_details_color = (0, 0, 0, 0), weapon_numbers_sep = ''x'', weapon_details_sep = ''-'',
      leader_crown = ''crown.png'', utils_join = (\<lambda>xs sep. concat xs), get_acceleration = 100,
      image_file_exists = (\<lambda>f. True), string_table = (\<lambda>k. k)\<rparr>"
       and T = 5 and tm = "\<lparr>tm_name = ''Hills'', moves = 2\<rparr>" and get = "\<lambda>t. 2"]
    get_mp_tooltip_costs
    [where env = "\<lparr>translate = (\<lambda>m. m), dgettext = (\<lambda>d m. m), vgettext = (\<lambda>m syms. m),
      resistance_color = (\<lambda>r. ''#ffffff''), signed_percent = (\<lambda>r. if r < 0 then ''-'' else ''+''),
      movement_color = (\<lambda>m. ''#00ff00''),
      load_terrain_types_data =
        Some (\<lambda>t. \<lparr>is_indivisible = True, is_nonnull = True, terrain_name = ''Hills''\<rparr>),
      encountered_terrains = [(1, 0)], FOGGED = (0, 0), VOID_TERRAIN = (0, 1),
      matches_all_off_map = (\<lambda>t. False), terrain_moves_emplace = (\<lambda>tm tms. tms @ [tm]),
      span_color = (\<lambda>c. ''<span>''), unit_type_color = (0, 0, 0, 0),
      weapon_details_color = (0, 0, 0, 0), weapon_numbers_sep = ''x'', weapon_details_sep = ''-'',
      leader_crown = ''crown.png'', utils_join = (\<lambda>xs sep. concat xs), get_acceleration = 100,
      image_file_exists = (\<lambda>f. True), string_table = (\<lambda>k. k)\<rparr>"
       and T = 5 and tm = "\<lparr>tm_name = ''Swamp'', moves = 7\<rparr>" and get = "\<lambda>t. 2"]
    get_mp_tooltip_costs
    [where env = "\<lparr>translate = (\<lambda>m. m), dgettext = (\<lambda>d m. m), vgettext = (\<lambda>m syms. m),
      resistance_color = (\<lambda>r. ''#ffffff''), signed_percent = (\<lambda>r. if r < 0 then ''-'' else ''+''),
      movement_color = (\<lambda>m. ''#00ff00''),
      load_terrain_types_data =
        Some (\<lambda>t. \<lparr>is_indivisible = True, is_nonnull = True, terrain_name = ''Hills''\<rparr>),
      encountered_terrains = [(1, 0)], FOGGED = (0, 0), VOID_TERRAIN = (0, 1),
      matches_all_off_map = (\<lambda>t. False), terrain_moves_emplace = (\<lambda>tm tms. tms @ [tm]),
      span_color = (\<lambda>c. ''<span>''), unit_type_color = (0, 0, 0, 0),
      weapon_details_color = (0, 0, 0, 0), weapon_numbers_sep = ''x'', weapon_details_sep = ''-'',
      leader_crown = ''crown.png'', utils_join = (\<lambda>xs sep. concat xs), get_acceleration = 100,
      image_file_exists = (\<lambda>f. True), string_table = (\<lambda>k. k)\<rparr>"
       and T = 5 and tm = "\<lparr>tm_name = ''Chasm'', moves = 99\<rparr>" and get = "\<lambda>t. 2"]
  by (simp add: is_int_def ostream_int_def ostream_nat.simps digit_def numeral_2_eq_2)

text \<open>Where the sum leaves \<open>int\<close> the line follows the arithmetic of the compiled program:
  with a maximum movement of 2147483646 and a cost of 2147483647 the sum wraps to a
  negative number and the figure dash is written.\<close>

lemma mp_tooltip_line_wrapped_sum:
  "mp_tooltip_line env 2147483646 \<lparr>tm_name = n, moves = 2147483647\<rparr> [] =
     newline @ unicode_bullet @ '' '' @ n @ '': '' @
     ''<span color='' @ apostrophe @ movement_color env 2147483647 @ apostrophe @ ''>'' @
     unicode_figure_dash @ '' '' @ ''</span>''"
  by (simp add: mp_tooltip_line_def Let_def wrap_int_def int_div_def hexagon_loop_eq)

lemma resistances_loop_eq:
  assumes "\<forall>resist\<in>set res. \<forall>is_attacker. is_int (100 - get (fst resist) is_attacker)"
  shows "resistances_loop env get res (att_def_diff, resistances_table) =
   (att_def_diff \<or> (\<exists>resist\<in>set res. 100 - get (fst resist) True \<noteq> 100 - get (fst resist) False),
    resistances_table @
    map (\<lambda>resist.
           dgettext env ''wesnoth'' (fst resist) @ '': '' @
           (if 100 - get (fst resist) True = 100 - get (fst resist) False
            then ''<span color='' @ apostrophe @
                 resistance_color env (100 - get (fst resist) False) @ apostrophe @ ''>'' @ tab @
                 signed_percent env (100 - get (fst resist) False) @ ''</span>''
            else ''<span color='' @ apostrophe @
                 resistance_color env (100 - get (fst resist) True) @ apostrophe @ ''>'' @ tab @
                 signed_percent env (100 - get (fst resist) True) @ ''</span>'' @ ''/'' @
                 ''<span color='' @ apostrophe @
                 resistance_color env (100 - get (fst resist) False) @ apostrophe @ ''>'' @
                 signed_percent env (100 - get (fst resist) False) @ ''</span>'')) res)"
  using assms
proof (induction res arbitrary: att_def_diff resistances_table)
  case Nil
  then show ?case by simp
next
  case (Cons resist res)
  from Cons.prems have att: "wrap_int (100 - get (fst resist) True) = 100 - get (fst resist) True"
    and def: "wrap_int (100 - get (fst resist) False) = 100 - get (fst resist) False"
    by (simp_all add: wrap_int_id)
  from Cons.prems
  have rest: "\<forall>resist\<in>set res. \<forall>is_attacker. is_int (100 - get (fst resist) is_attacker)"
    by simp
  show ?case
    by (cases "get (fst resist) True = get (fst resist) False")
       (simp_all add: Cons.IH [OF rest] Let_def att def)
qed

lemma bullet_lines_eq:
  "bullet_lines ls out = out @ concat (map (\<lambda>line. newline @ unicode_bullet @ '' '' @ line) ls)"
  by (induction ls arbitrary: out) simp_all

text \<open>
  C3: for every damage type of the resistance table whose queried resistances are values
  of \<open>int\<close> that 100 minus them is a value of \<open>int\<close> as well, the line of the tooltip shows
  the signed percent of 100 minus the queried resistance: one value when the values for
  attack and defense are equal, the attack value, a slash and the defense value when
  they differ.  The header is followed by the marker \<open>(Att / Def)\<close> if and only if the
  two values differ for at least one damage type.
\<close>

theorem get_hp_tooltip_values:
  assumes range: "\<forall>resist\<in>set res. \<forall>is_attacker.
      is_int (get (fst resist) is_attacker) \<and> is_int (100 - get (fst resist) is_attacker)"
  shows "get_hp_tooltip env res get =
     ''<big>'' @ translate env ''Resistances: '' @ ''</big>'' @
     (if \<exists>resist\<in>set res. 100 - get (fst resist) True \<noteq> 100 - get (fst resist) False
      then translate env ''(Att / Def)'' else []) @
     concat (map (\<lambda>resist.
        newline @ unicode_bullet @ '' '' @ dgettext env ''wesnoth'' (fst resist) @ '': '' @
        (if 100 - get (fst resist) True = 100 - get (fst resist) False
         then ''<span color='' @ apostrophe @
              resistance_color env (100 - get (fst resist) False) @ apostrophe @ ''>'' @ tab @
              signed_percent env (100 - get (fst resist) False) @ ''</span>''
         else ''<span color='' @ apostrophe @
              resistance_color env (100 - get (fst resist) True) @ apostrophe @ ''>'' @ tab @
              signed_percent env (100 - get (fst resist) True) @ ''</span>'' @ ''/'' @
              ''<span color='' @ apostrophe @
              resistance_color env (100 - get (fst resist) False) @ apostrophe @ ''>'' @
              signed_percent env (100 - get (fst resist) False) @ ''</span>'')) res)"
proof -
  from range
  have "\<forall>resist\<in>set res. \<forall>is_attacker. is_int (100 - get (fst resist) is_attacker)"
    by simp
  from resistances_loop_eq [OF this, of env False "[]"]
  show ?thesis
    by (simp add: get_hp_tooltip_def bullet_lines_eq Let_def comp_def)
qed

theorem get_hp_tooltip_values_witness:
  "get_hp_tooltip
     \<lparr>translate = (\<lambda>m. m), dgettext = (\<lambda>d m. m), vgettext = (\<lambda>m syms. m),
      resistance_color = (\<lambda>r. ''#ffffff''), signed_percent = (\<lambda>r. if r < 0 then ''-'' else ''+''),
      movement_color = (\<lambda>m. ''#00ff00''),
      load_terrain_types_data =
        Some (\<lambda>t. \<lparr>is_indivisible = True, is_nonnull = True, terrain_name = ''Hills''\<rparr>),
      encountered_terrains = [(1, 0)], FOGGED = (0, 0), VOID_TERRAIN = (0, 1),
      matches_all_off_map = (\<lambda>t. False), terrain_moves_emplace = (\<lambda>tm tms. tms @ [tm]),
      span_color = (\<lambda>c. ''<span>''), unit_type_color = (0, 0, 0, 0),
      weapon_details_color = (0, 0, 0, 0), weapon_numbers_sep = ''x'', weapon_details_sep = ''-'',
      leader_crown = ''crown.png'', utils_join = (\<lambda>xs sep. concat xs), get_acceleration = 100,
      image_file_exists = (\<lambda>f. True), string_table = (\<lambda>k. k)\<rparr>
     [(''blade'', []), (''fire'', [])] (\<lambda>d a. if d = ''fire'' \<and> a then 10 else 20) =
   ''<big>Resistances: </big>(Att / Def)'' @
   newline @ unicode_bullet @ '' blade: <span color='' @ apostrophe @ ''#ffffff'' @ apostrophe @
   ''>'' @ tab @ ''+</span>'' @
   newline @ unicode_bullet @ '' fire: <span color='' @ apostrophe @ ''#ffffff'' @ apostrophe @
   ''>'' @ tab @ ''+</span>/<span color='' @ apostrophe @ ''#ffffff'' @ apostrophe @
   ''>+</span>'' \<and>
   get_hp_tooltip
     \<lparr>translate = (\<lambda>m. m), dgettext = (\<lambda>d m. m), vgettext = (\<lambda>m syms. m),
      resistance_color = (\<lambda>r. ''#ffffff''), signed_percent = (\<lambda>r. if r < 0 then ''-'' else ''+''),
      movement_color = (\<lambda>m. ''#00ff00''),
      load_terrain_types_data =
        Some (\<lambda>t. \<lparr>is_indivisible = True, is_nonnull = True, terrain_name = ''Hills''\<rparr>),
      encountered_terrains = [(1, 0)], FOGGED = (0, 0), VOID_TERRAIN = (0, 1),
      matches_all_off_map = (\<lambda>t. False), terrain_moves_emplace = (\<lambda>tm tms. tms @ [tm]),
      span_color = (\<lambda>c. ''<span>''), unit_type_color = (0, 0, 0, 0),
      weapon_details_color = (0, 0, 0, 0), weapon_numbers_sep = ''x'', weapon_details_sep = ''-'',
      leader_crown = ''crown.png'', utils_join = (\<lambda>xs sep. concat xs), get_acceleration = 100,
      image_file_exists = (\<lambda>f. True), string_table = (\<lambda>k. k)\<rparr>
     [(''blade'', [])] (\<lambda>d a. 20) =
   ''<big>Resistances: </big>'' @
   newline @ unicode_bullet @ '' blade: <span color='' @ apostrophe @ ''#ffffff'' @ apostrophe @
   ''>'' @ tab @ ''+</span>''"
  using get_hp_tooltip_values
    [where env = "\<lparr>translate = (\<lambda>m. m), dgettext = (\<lambda>d m. m), vgettext = (\<lambda>m syms. m),
      resistance_color = (\<lambda>r. ''#ffffff''), signed_percent = (\<lambda>r. if r < 0 then ''-'' else ''+''),
      movement_color = (\<lambda>m. ''#00ff00''),
      load_terrain_types_data =
        Some (\<lambda>t. \<lparr>is_indivisible = True, is_nonnull = True, terrain_name = ''Hills''\<rparr>),
      encountered_terrains = [(1, 0)], FOGGED = (0, 0), VOID_TERRAIN = (0, 1),
      matches_all_off_map = (\<lambda>t. False), terrain_moves_emplace = (\<lambda>tm tms. tms @ [tm]),
      span_color = (\<lambda>c. ''<span>''), unit_type_color = (0, 0, 0, 0),
      weapon_details_color = (0, 0, 0, 0), weapon_numbers_sep = ''x'', weapon_details_sep = ''-'',
      leader_crown = ''crown.png'', utils_join = (\<lambda>xs sep. concat xs), get_acceleration = 100,
      image_file_exists = (\<lambda>f. True), string_table = (\<lambda>k. k)\<rparr>"
       and res = "[(''blade'', []), (''fire'', [])]" and get = "\<lambda>d a. if d = ''fire'' \<and> a then 10 else 20"]
    get_hp_tooltip_values
    [where env = "\<lparr>translate = (\<lambda>m. m), dgettext = (\<lambda>d m. m), vgettext = (\<lambda>m syms. m),
      resistance_color = (\<lambda>r. ''#ffffff''), signed_percent = (\<lambda>r. if r < 0 then ''-'' else ''+''),
      movement_color = (\<lambda>m. ''#00ff00''),
      load_terrain_types_data =
        Some (\<lambda>t. \<lparr>is_indivisible = True, is_nonnull = True, terrain_name = ''Hills''\<rparr>),
      encountered_terrains = [(1, 0)], FOGGED = (0, 0), VOID_TERRAIN = (0, 1),
      matches_all_off_map = (\<lambda>t. False), terrain_moves_emplace = (\<lambda>tm tms. tms @ [tm]),
      span_color = (\<lambda>c. ''<span>''), unit_type_color = (0, 0, 0, 0),
      weapon_details_color = (0, 0, 0, 0), weapon_numbers_sep = ''x'', weapon_details_sep = ''-'',
      leader_crown = ''crown.png'', utils_join = (\<lambda>xs sep. concat xs), get_acceleration = 100,
      image_file_exists = (\<lambda>f. True), string_table = (\<lambda>k. k)\<rparr>"
       and res = "[(''blade'', [])]" and get = "\<lambda>d a. 20"]
  by (simp add: is_int_def)

text \<open>Where the subtraction leaves \<open>int\<close> the line follows the arithmetic of the compiled
  program: for a queried resistance of -2147483648 the difference wraps to
  -2147483548.\<close>

lemma get_hp_tooltip_wrapped_difference:
  "get_hp_tooltip env [(t, v)] (\<lambda>d a. - 2147483648) =
     ''<big>'' @ translate env ''Resistances: '' @ ''</big>'' @
     newline @ unicode_bullet @ '' '' @ dgettext env ''wesnoth'' t @ '': '' @
     ''<span color='' @ apostrophe @ resistance_color env (- 2147483548) @ apostrophe @ ''>'' @
     tab @ signed_percent env (- 2147483548) @ ''</span>''"
  by (simp add: get_hp_tooltip_def Let_def wrap_int_def)

subsection \<open>Displaying a unit\<close>

lemma slash_not_en_dash: "a @ ''/'' @ b \<noteq> unicode_en_dash"
proof
  assume "a @ ''/'' @ b = unicode_en_dash"
  then have "set (a @ ''/'' @ b) = set unicode_en_dash" by simp
  then have "CHR ''/'' \<in> set unicode_en_dash" by auto
  then show False by (simp add: unicode_en_dash_def)
qed

text \<open>
  C7: \<open>set_displayed_unit\<close> renders the XP statistic as the text of the experience, a slash
  and the maximum experience if and only if the unit can advance, and as the en dash
  otherwise, both in the minimal details label and in the \<open>xp\<close> entry of the first node
  of the details tree, for each of the two widgets that the pane has.
\<close>

theorem set_displayed_unit_xp:
  "(let unit_xp = (if can_advance u
                   then ostream_int (experience u) @ ''/'' @ ostream_int (max_experience u)
                   else unicode_en_dash);
        pane' = set_displayed_unit env u pane
    in (label_details pane \<noteq> None \<longrightarrow>
          (\<exists>w. label_details pane' = Some w \<and>
             label w =
               ''<span size='' @ apostrophe @ ''large'' @ apostrophe @ ''>'' @
               (if unit_name u \<noteq> [] then unit_name u else '' '') @ ''</span>'' @ newline @
               span_color env (unit_type_color env) @ type_name u @ ''</span>'' @ newline @
               vgettext env ''Lvl $lvl'' [(''lvl'', ostream_int (level u))] @ newline @
               alignment_description u @ newline @
               utils_join env (trait_names u) '', '' @ newline @
               span_color env (hp_color u) @ translate env ''HP: '' @
               ostream_int (hitpoints u) @ ''/'' @ ostream_int (max_hitpoints u) @ ''</span>'' @
               newline @
               span_color env (xp_color u) @ translate env ''XP: '' @ unit_xp @ ''</span>'')) \<and>
       (tree_details pane \<noteq> None \<longrightarrow>
          (\<exists>hp xp mp rest.
             tree_details pane' =
               Some (Tree_node ''hp_xp_mp'' [(''hp'', hp), (''xp'', xp), (''mp'', mp)] [] # rest) \<and>
             label xp =
               ''<small>'' @ span_color env (xp_color u) @ ''<b>'' @ translate env ''XP: '' @
               ''</b>'' @ unit_xp @ ''</span>'' @ '' | </small>'')) \<and>
       (unit_xp = ostream_int (experience u) @ ''/'' @ ostream_int (max_experience u)) =
         can_advance u \<and>
       (unit_xp = unicode_en_dash) = (\<not> can_advance u))"
proof -
  have differ: "ostream_int (experience u) @ ''/'' @ ostream_int (max_experience u) \<noteq> unicode_en_dash"
    by (rule slash_not_en_dash)
  have lbl: "label_details pane \<noteq> None \<Longrightarrow>
      \<exists>w. label_details (set_displayed_unit env u pane) = Some w \<and> label w = details_text env u"
    by (auto simp: set_displayed_unit_def)
  have tree: "tree_details pane \<noteq> None \<Longrightarrow>
      tree_details (set_displayed_unit env u pane) = Some (details_nodes env u)"
    by (auto simp: set_displayed_unit_def)
  show ?thesis
    unfolding Let_def
    using differ lbl tree
    by (auto simp: details_text_def details_nodes_def Let_def)
qed

theorem set_displayed_unit_xp_witness:
  "label_details
     \<lparr>current_type = None, icon_type = None, icon_race = None, icon_alignment = None,
      label_name = None, label_level = None, label_race = None,
      label_details = Some \<lparr>label = [], tooltip = [], use_markup = False\<rparr>,
      tree_details = Some [], button_profile = False, image_mods = []\<rparr> \<noteq> None \<and>
   tree_details
     \<lparr>current_type = None, icon_type = None, icon_race = None, icon_alignment = None,
      label_name = None, label_level = None, label_race = None,
      label_details = Some \<lparr>label = [], tooltip = [], use_markup = False\<rparr>,
      tree_details = Some [], button_profile = False, image_mods = []\<rparr> \<noteq> None \<and>
   (\<exists>w. label_details (set_displayed_unit
      \<lparr>translate = (\<lambda>m. m), dgettext = (\<lambda>d m. m), vgettext = (\<lambda>m syms. m),
      resistance_color = (\<lambda>r. ''#ffffff''), signed_percent = (\<lambda>r. if r < 0 then ''-'' else ''+''),
      movement_color = (\<lambda>m. ''#00ff00''),
      load_terrain_types_data =
        Some (\<lambda>t. \<lparr>is_indivisible = True, is_nonnull = True, terrain_name = ''Hills''\<rparr>),
      encountered_terrains = [(1, 0)], FOGGED = (0, 0), VOID_TERRAIN = (0, 1),
      matches_all_off_map = (\<lambda>t. False), terrain_moves_emplace = (\<lambda>tm tms. tms @ [tm]),
      span_color = (\<lambda>c. ''<span>''), unit_type_color = (0, 0, 0, 0),
      weapon_details_color = (0, 0, 0, 0), weapon_numbers_sep = ''x'', weapon_details_sep = ''-'',
      leader_crown = ''crown.png'', utils_join = (\<lambda>xs sep. concat xs), get_acceleration = 100,
      image_file_exists = (\<lambda>f. True), string_table = (\<lambda>k. k)\<rparr>
      \<lparr>unit_type_id = ''Spearman'', unit_image_mods = [], can_recruit = False, overlays = [],
      absolute_image = ''spearman.png'', unit_name = ''Ann'', type_name = ''Spearman'', level = 1,
      level_tooltip = [], race_name = ''Human'', race_icon_path_stem = ''human'',
      alignment_string = ''lawful'', alignment_description = ''Lawful'', trait_names = [],
      trait_descriptions = [], hp_color = (0, 0, 0, 0), xp_color = (0, 0, 0, 0), hitpoints = 30,
      max_hitpoints = 36, experience = 7, max_experience = 42, can_advance = False,
      movement_left = 5, total_movement = 5, base_resistances = [],
      resistance_against = (\<lambda>d a. 0), movement_cost = (\<lambda>t. 1), ability_list = [],
      ability_tooltips = [], attacks = []\<rparr>
      \<lparr>current_type = None, icon_type = None, icon_race = None, icon_alignment = None,
      label_name = None, label_level = None, label_race = None,
      label_details = Some \<lparr>label = [], tooltip = [], use_markup = False\<rparr>,
      tree_details = Some [], button_profile = False, image_mods = []\<rparr>) = Some w \<and>
      label w =
        ''<span size='' @ apostrophe @ ''large'' @ apostrophe @ ''>Ann</span>'' @ newline @
        ''<span>Spearman</span>'' @ newline @ ''Lvl $lvl'' @ newline @ ''Lawful'' @ newline @
        newline @ ''<span>HP: 30/36</span>'' @ newline @ ''<span>XP: '' @ unicode_en_dash @ ''</span>'') \<and>
   (\<exists>hp xp mp rest. tree_details (set_displayed_unit
      \<lparr>translate = (\<lambda>m. m), dgettext = (\<lambda>d m. m), vgettext = (\<lambda>m syms. m),
      resistance_color = (\<lambda>r. ''#ffffff''), signed_percent = (\<lambda>r. if r < 0 then ''-'' else ''+''),
      movement_color = (\<lambda>m. ''#00ff00''),
      load_terrain_types_data =
        Some (\<lambda>t. \<lparr>is_indivisible = True, is_nonnull = True, terrain_name = ''Hills''\<rparr>),
      encountered_terrains = [(1, 0)], FOGGED = (0, 0), VOID_TERRAIN = (0, 1),
      matches_all_off_map = (\<lambda>t. False), terrain_moves_emplace = (\<lambda>tm tms. tms @ [tm]),
      span_color = (\<lambda>c. ''<span>''), unit_type_color = (0, 0, 0, 0),
      weapon_details_color = (0, 0, 0, 0), weapon_numbers_sep = ''x'', weapon_details_sep = ''-'',
      leader_crown = ''crown.png'', utils_join = (\<lambda>xs sep. concat xs), get_acceleration = 100,
      image_file_exists = (\<lambda>f. True), string_table = (\<lambda>k. k)\<rparr>
      \<lparr>unit_type_id = ''Spearman'', unit_image_mods = [], can_recruit = False, overlays = [],
      absolute_image = ''spearman.png'', unit_name = ''Ann'', type_name = ''Spearman'', level = 1,
      level_tooltip = [], race_name = ''Human'', race_icon_path_stem = ''human'',
      alignment_string = ''lawful'', alignment_description = ''Lawful'', trait_names = [],
      trait_descriptions = [], hp_color = (0, 0, 0, 0), xp_color = (0, 0, 0, 0), hitpoints = 30,
      max_hitpoints = 36, experience = 7, max_experience = 42, can_advance = False,
      movement_left = 5, total_movement = 5, base_resistances = [],
      resistance_against = (\<lambda>d a. 0), movement_cost = (\<lambda>t. 1), ability_list = [],
      ability_tooltips = [], attacks = []\<rparr>
      \<lparr>current_type = None, icon_type = None, icon_race = None, icon_alignment = None,
      label_name = None, label_level = None, label_race = None,
      label_details = Some \<lparr>label = [], tooltip = [], use_markup = False\<rparr>,
      tree_details = Some [], button_profile = False, image_mods = []\<rparr>) =
        Some (Tree_node ''hp_xp_mp'' [(''hp'', hp), (''xp'', xp), (''mp'', mp)] [] # rest) \<and>
      label xp = ''<small><span><b>XP: </b>'' @ unicode_en_dash @ ''</span> | </small>'') \<and>
   (\<exists>w. label_details (set_displayed_unit
      \<lparr>translate = (\<lambda>m. m), dgettext = (\<lambda>d m. m), vgettext = (\<lambda>m syms. m),
      resistance_color = (\<lambda>r. ''#ffffff''), signed_percent = (\<lambda>r. if r < 0 then ''-'' else ''+''),
      movement_color = (\<lambda>m. ''#00ff00''),
      load_terrain_types_data =
        Some (\<lambda>t. \<lparr>is_indivisible = True, is_nonnull = True, terrain_name = ''Hills''\<rparr>),
      encountered_terrains = [(1, 0)], FOGGED = (0, 0), VOID_TERRAIN = (0, 1),
      matches_all_off_map = (\<lambda>t. False), terrain_moves_emplace = (\<lambda>tm tms. tms @ [tm]),
      span_color = (\<lambda>c. ''<span>''), unit_type_color = (0, 0, 0, 0),
      weapon_details_color = (0, 0, 0, 0), weapon_numbers_sep = ''x'', weapon_details_sep = ''-'',
      leader_crown = ''crown.png'', utils_join = (\<lambda>xs sep. concat xs), get_acceleration = 100,
      image_file_exists = (\<lambda>f. True), string_table = (\<lambda>k. k)\<rparr>
      \<lparr>unit_type_id = ''Spearman'', unit_image_mods = [], can_recruit = False, overlays = [],
      absolute_image = ''spearman.png'', unit_name = ''Ann'', type_name = ''Spearman'', level = 1,
      level_tooltip = [], race_name = ''Human'', race_icon_path_stem = ''human'',
      alignment_string = ''lawful'', alignment_description = ''Lawful'', trait_names = [],
      trait_descriptions = [], hp_color = (0, 0, 0, 0), xp_color = (0, 0, 0, 0), hitpoints = 30,
      max_hitpoints = 36, experience = 7, max_experience = 42, can_advance = True,
      movement_left = 5, total_movement = 5, base_resistances = [],
      resistance_against = (\<lambda>d a. 0), movement_cost = (\<lambda>t. 1), ability_list = [],
      ability_tooltips = [], attacks = []\<rparr>
      \<lparr>current_type = None, icon_type = None, icon_race = None, icon_alignment = None,
      label_name = None, label_level = None, label_race = None,
      label_details = Some \<lparr>label = [], tooltip = [], use_markup = False\<rparr>,
      tree_details = Some [], button_profile = False, image_mods = []\<rparr>) = Some w \<and>
      label w =
        ''<span size='' @ apostrophe @ ''large'' @ apostrophe @ ''>Ann</span>'' @ newline @
        ''<span>Spearman</span>'' @ newline @ ''Lvl $lvl'' @ newline @ ''Lawful'' @ newline @
        newline @ ''<span>HP: 30/36</span>'' @ newline @ ''<span>XP: '' @ ''7/42'' @ ''</span>'') \<and>
   (\<exists>hp xp mp rest. tree_details (set_displayed_unit
      \<lparr>translate = (\<lambda>m. m), dgettext = (\<lambda>d m. m), vgettext = (\<lambda>m syms. m),
      resistance_color = (\<lambda>r. ''#ffffff''), signed_percent = (\<lambda>r. if r < 0 then ''-'' else ''+''),
      movement_color = (\<lambda>m. ''#00ff00''),
      load_terrain_types_data =
        Some (\<lambda>t. \<lparr>is_indivisible = True, is_nonnull = True, terrain_name = ''Hills''\<rparr>),
      encountered_terrains = [(1, 0)], FOGGED = (0, 0), VOID_TERRAIN = (0, 1),
      matches_all_off_map = (\<lambda>t. False), terrain_moves_emplace = (\<lambda>tm tms. tms @ [tm]),
      span_color = (\<lambda>c. ''<span>''), unit_type_color = (0, 0, 0, 0),
      weapon_details_color = (0, 0, 0, 0), weapon_numbers_sep = ''x'', weapon_details_sep = ''-'',
      leader_crown = ''crown.png'', utils_join = (\<lambda>xs sep. concat xs), get_acceleration = 100,
      image_file_exists = (\<lambda>f. True), string_table = (\<lambda>k. k)\<rparr>
      \<lparr>unit_type_id = ''Spearman'', unit_image_mods = [], can_recruit = False, overlays = [],
      absolute_image = ''spearman.png'', unit_name = ''Ann'', type_name = ''Spearman'', level = 1,
      level_tooltip = [], race_name = ''Human'', race_icon_path_stem = ''human'',
      alignment_string = ''lawful'', alignment_description = ''Lawful'', trait_names = [],
      trait_descriptions = [], hp_color = (0, 0, 0, 0), xp_color = (0, 0, 0, 0), hitpoints = 30,
      max_hitpoints = 36, experience = 7, max_experience = 42, can_advance = True,
      movement_left = 5, total_movement = 5, base_resistances = [],
      resistance_against = (\<lambda>d a. 0), movement_cost = (\<lambda>t. 1), ability_list = [],
      ability_tooltips = [], attacks = []\<rparr>
      \<lparr>current_type = None, icon_type = None, icon_race = None, icon_alignment = None,
      label_name = None, label_level = None, label_race = None,
      label_details = Some \<lparr>label = [], tooltip = [], use_markup = False\<rparr>,
      tree_details = Some [], button_profile = False, image_mods = []\<rparr>) =
        Some (Tree_node ''hp_xp_mp'' [(''hp'', hp), (''xp'', xp), (''mp'', mp)] [] # rest) \<and>
      label xp = ''<small><span><b>XP: </b>'' @ ''7/42'' @ ''</span> | </small>'')"
  using set_displayed_unit_xp
    [where u = "\<lparr>unit_type_id = ''Spearman'', unit_image_mods = [], can_recruit = False, overlays = [],
      absolute_image = ''spearman.png'', unit_name = ''Ann'', type_name = ''Spearman'', level = 1,
      level_tooltip = [], race_name = ''Human'', race_icon_path_stem = ''human'',
      alignment_string = ''lawful'', alignment_description = ''Lawful'', trait_names = [],
      trait_descriptions = [], hp_color = (0, 0, 0, 0), xp_color = (0, 0, 0, 0), hitpoints = 30,
      max_hitpoints = 36, experience = 7, max_experience = 42, can_advance = False,
      movement_left = 5, total_movement = 5, base_resistances = [],
      resistance_against = (\<lambda>d a. 0), movement_cost = (\<lambda>t. 1), ability_list = [],
      ability_tooltips = [], attacks = []\<rparr>"
       and pane = "\<lparr>current_type = None, icon_type = None, icon_race = None, icon_alignment = None,
      label_name = None, label_level = None, label_race = None,
      label_details = Some \<lparr>label = [], tooltip = [], use_markup = False\<rparr>,
      tree_details = Some [], button_profile = False, image_mods = []\<rparr>"
       and env = "\<lparr>translate = (\<lambda>m. m), dgettext = (\<lambda>d m. m), vgettext = (\<lambda>m syms. m),
      resistance_color = (\<lambda>r. ''#ffffff''), signed_percent = (\<lambda>r. if r < 0 then ''-'' else ''+''),
      movement_color = (\<lambda>m. ''#00ff00''),
      load_terrain_types_data =
        Some (\<lambda>t. \<lparr>is_indivisible = True, is_nonnull = True, terrain_name = ''Hills''\<rparr>),
      encountered_terrains = [(1, 0)], FOGGED = (0, 0), VOID_TERRAIN = (0, 1),
      matches_all_off_map = (\<lambda>t. False), terrain_moves_emplace = (\<lambda>tm tms. tms @ [tm]),
      span_color = (\<lambda>c. ''<span>''), unit_type_color = (0, 0, 0, 0),
      weapon_details_color = (0, 0, 0, 0), weapon_numbers_sep = ''x'', weapon_details_sep = ''-'',
      leader_crown = ''crown.png'', utils_join = (\<lambda>xs sep. concat xs), get_acceleration = 100,
      image_file_exists = (\<lambda>f. True), string_table = (\<lambda>k. k)\<rparr>"]
    set_displayed_unit_xp
    [where u = "\<lparr>unit_type_id = ''Spearman'', unit_image_mods = [], can_recruit = False, overlays = [],
      absolute_image = ''spearman.png'', unit_name = ''Ann'', type_name = ''Spearman'', level = 1,
      level_tooltip = [], race_name = ''Human'', race_icon_path_stem = ''human'',
      alignment_string = ''lawful'', alignment_description = ''Lawful'', trait_names = [],
      trait_descriptions = [], hp_color = (0, 0, 0, 0), xp_color = (0, 0, 0, 0), hitpoints = 30,
      max_hitpoints = 36, experience = 7, max_experience = 42, can_advance = True,
      movement_left = 5, total_movement = 5, base_resistances = [],
      resistance_against = (\<lambda>d a. 0), movement_cost = (\<lambda>t. 1), ability_list = [],
      ability_tooltips = [], attacks = []\<rparr>"
       and pane = "\<lparr>current_type = None, icon_type = None, icon_race = None, icon_alignment = None,
      label_name = None, label_level = None, label_race = None,
      label_details = Some \<lparr>label = [], tooltip = [], use_markup = False\<rparr>,
      tree_details = Some [], button_profile = False, image_mods = []\<rparr>"
       and env = "\<lparr>translate = (\<lambda>m. m), dgettext = (\<lambda>d m. m), vgettext = (\<lambda>m syms. m),
      resistance_color = (\<lambda>r. ''#ffffff''), signed_percent = (\<lambda>r. if r < 0 then ''-'' else ''+''),
      movement_color = (\<lambda>m. ''#00ff00''),
      load_terrain_types_data =
        Some (\<lambda>t. \<lparr>is_indivisible = True, is_nonnull = True, terrain_name = ''Hills''\<rparr>),
      encountered_terrains = [(1, 0)], FOGGED = (0, 0), VOID_TERRAIN = (0, 1),
      matches_all_off_map = (\<lambda>t. False), terrain_moves_emplace = (\<lambda>tm tms. tms @ [tm]),
      span_color = (\<lambda>c. ''<span>''), unit_type_color = (0, 0, 0, 0),
      weapon_details_color = (0, 0, 0, 0), weapon_numbers_sep = ''x'', weapon_details_sep = ''-'',
      leader_crown = ''crown.png'', utils_join = (\<lambda>xs sep. concat xs), get_acceleration = 100,
      image_file_exists = (\<lambda>f. True), string_table = (\<lambda>k. k)\<rparr>"]
  by (simp add: Let_def ostream_int_def ostream_nat.simps digit_def)

end
